theory Spec2Isabelle
  imports
    Main
    "HOL-Library.Char_ord"
    "HOL-Library.List_Lexorder"
    "HOL-Library.Product_Lexorder"
    "HOL-Library.Sublist"
begin

section \<open>Values, records and errors\<close>

text \<open>
  Property values as the driver hands them to \<^verbatim>\<open>neo4j_export.py\<close>: \<^verbatim>\<open>None\<close>, booleans,
  integers and strings. A list-valued property (a Neo4j array) is kept as \<open>PList r\<close>, with
  \<open>r\<close> its \<^verbatim>\<open>str()\<close> rendering: the exporter never compares two lists, it only tests them
  against \<^verbatim>\<open>[None, "", "NULL"]\<close>, hashes them (which raises) and writes them to a cell.
  Floats, temporal and spatial values are outside this model. A string is a list of
  characters, one \<open>char\<close> per code point, ordered by code point as Python orders \<^verbatim>\<open>str\<close>.
\<close>

datatype pyval = PNone | PBool bool | PInt int | PStr string | PList string

text \<open>A node or relationship record, \<^verbatim>\<open>dict(node)\<close>: property name to value.\<close>

type_synonym props = "(string \<times> pyval) list"

datatype py_error = ValueError | TypeError

text \<open>\<^verbatim>\<open>node.get(prop)\<close>: the value, \<^verbatim>\<open>None\<close> for a missing key.\<close>

definition node_get :: "props \<Rightarrow> string \<Rightarrow> pyval" where
  "node_get node prop = (case map_of node prop of None \<Rightarrow> PNone | Some v \<Rightarrow> v)"

text \<open>\<^verbatim>\<open>v in [None, "", "NULL"]\<close>; no boolean, integer or list equals one of the three.\<close>

definition in_null_list :: "pyval \<Rightarrow> bool" where
  "in_null_list v = (v = PNone \<or> v = PStr [] \<or> v = PStr ''NULL'')"

text \<open>\<^verbatim>\<open>hash(v)\<close> raises \<^verbatim>\<open>TypeError\<close> on a list.\<close>

fun hashable :: "pyval \<Rightarrow> bool" where
  "hashable (PList r) = False"
| "hashable v = True"

text \<open>
  Members of a Python set are identified up to \<^verbatim>\<open>==\<close>, and \<^verbatim>\<open>True == 1\<close>,
  \<^verbatim>\<open>False == 0\<close> with equal hashes: a boolean is keyed as its integer.
\<close>

fun py_key :: "pyval \<Rightarrow> pyval" where
  "py_key (PBool b) = PInt (if b then 1 else 0)"
| "py_key v = v"

section \<open>Strings\<close>

text \<open>
  \<^verbatim>\<open>str.lower()\<close> on the ASCII letters. The source only compares lowered text with the
  ASCII literals \<^verbatim>\<open>'id'\<close>, \<^verbatim>\<open>'true'\<close> and \<^verbatim>\<open>'false'\<close>, and no other character lowers to
  one of their letters.
\<close>

definition lower_char :: "char \<Rightarrow> char" where
  "lower_char c =
     (if CHR ''A'' \<le> c \<and> c \<le> CHR ''Z'' then char_of (of_char c + (32::nat)) else c)"

definition py_lower :: "string \<Rightarrow> string" where
  "py_lower s = map lower_char s"

text \<open>\<^verbatim>\<open>s.endswith(t)\<close>.\<close>

definition endswith :: "string \<Rightarrow> string \<Rightarrow> bool" where
  "endswith s t = (length t \<le> length s \<and> drop (length s - length t) s = t)"

section \<open>Identifier resolution\<close>

text \<open>
  Step 4 of \<^verbatim>\<open>_determine_identifier\<close> for one property:
  \<^verbatim>\<open>values = [node.get(prop) for node in nodes if node.get(prop) not in [None, "", "NULL"]]\<close>.
\<close>

definition sample_values :: "props list \<Rightarrow> string \<Rightarrow> pyval list" where
  "sample_values nodes prop =
     filter (\<lambda>v. \<not> in_null_list v) (map (\<lambda>node. node_get node prop) nodes)"

text \<open>
  \<^verbatim>\<open>values and len(values) == len(set(values))\<close>: an empty sample is falsy and
  \<^verbatim>\<open>set(values)\<close> is not built; otherwise building the set hashes every value.
\<close>

definition unique_valued :: "pyval list \<Rightarrow> py_error + bool" where
  "unique_valued vals =
     (if vals = [] then Inr False
      else if \<not> list_all hashable vals then Inl TypeError
      else Inr (length vals = length (remdups (map py_key vals))))"

fun first_unique :: "props list \<Rightarrow> string list \<Rightarrow> py_error + string option" where
  "first_unique nodes [] = Inr None"
| "first_unique nodes (prop # rest) =
     (case unique_valued (sample_values nodes prop) of
        Inl e \<Rightarrow> Inl e
      | Inr True \<Rightarrow> Inr (Some prop)
      | Inr False \<Rightarrow> first_unique nodes rest)"

text \<open>\<^verbatim>\<open>[p for p in properties if p.lower().endswith('id')]\<close>.\<close>

definition id_candidates :: "string list \<Rightarrow> string list" where
  "id_candidates properties = filter (\<lambda>p. endswith (py_lower p) ''id'') properties"

text \<open>The sort key of step 3, \<^verbatim>\<open>lambda x: (x.lower() != 'id', len(x))\<close>.\<close>

definition id_key :: "string \<Rightarrow> bool \<times> nat" where
  "id_key x = (py_lower x \<noteq> ''id'', length x)"

text \<open>
  \<^verbatim>\<open>_determine_identifier(label, properties, nodes)\<close>, with \<^verbatim>\<open>self.unique_constraints\<close>
  as the first argument \<open>uc\<close>. \<^verbatim>\<open>sorted\<close> is stable, as \<open>sort_key\<close> is. The final
  \<^verbatim>\<open>raise ValueError\<close> is \<open>Inl ValueError\<close>.
\<close>

definition determine_identifier ::
  "(string \<rightharpoonup> string list) \<Rightarrow> string \<Rightarrow> string list \<Rightarrow> props list \<Rightarrow> py_error + string" where
  "determine_identifier uc label properties nodes =
     (case uc label of
        Some (c # cs) \<Rightarrow> Inr c
      | _ \<Rightarrow>
        (case find (\<lambda>prop. py_lower prop = ''id'') properties of
           Some prop \<Rightarrow> Inr prop
         | None \<Rightarrow>
           if id_candidates properties \<noteq> []
           then Inr (hd (sort_key id_key (id_candidates properties)))
           else
             (case first_unique nodes properties of
                Inl e \<Rightarrow> Inl e
              | Inr (Some prop) \<Rightarrow> Inr prop
              | Inr None \<Rightarrow>
                  (case properties of
                     prop # rest \<Rightarrow> Inr prop
                   | [] \<Rightarrow> Inl ValueError))))"

section \<open>Constraint collection\<close>

text \<open>
  One row of \<^verbatim>\<open>SHOW CONSTRAINTS\<close>, with the three columns \<^verbatim>\<open>get_unique_constraints\<close>
  reads (an absent column reads as the empty string or the empty list).
\<close>

record constraint_row =
  ctype :: string
  labelsOrTypes :: "string list"
  cproperties :: "string list"

text \<open>\<^verbatim>\<open>needle in text\<close> on strings.\<close>

fun py_contains :: "string \<Rightarrow> string \<Rightarrow> bool" where
  "py_contains needle [] = (needle = [])"
| "py_contains needle (c # cs) = (prefix needle (c # cs) \<or> py_contains needle cs)"

definition is_uniqueness :: "constraint_row \<Rightarrow> bool" where
  "is_uniqueness r =
     (py_contains ''UNIQUENESS'' (ctype r) \<or> py_contains ''UNIQUE'' (ctype r))"

text \<open>The body of the loop over the rows, on the path where the query succeeds.\<close>

definition add_constraint ::
  "(string \<rightharpoonup> string list) \<Rightarrow> constraint_row \<Rightarrow> (string \<rightharpoonup> string list)" where
  "add_constraint uc r =
     (if is_uniqueness r \<and> labelsOrTypes r \<noteq> [] \<and> cproperties r \<noteq> []
      then (let label = hd (labelsOrTypes r)
            in uc(label \<mapsto> (case uc label of None \<Rightarrow> [] | Some ps \<Rightarrow> ps) @ cproperties r))
      else uc)"

definition get_unique_constraints ::
  "(string \<rightharpoonup> string list) \<Rightarrow> constraint_row list \<Rightarrow> (string \<rightharpoonup> string list)" where
  "get_unique_constraints uc rows = foldl add_constraint uc rows"

text \<open>A row that declares a uniqueness constraint on \<open>label\<close>.\<close>

definition declares :: "string \<Rightarrow> constraint_row \<Rightarrow> bool" where
  "declares label r =
     (is_uniqueness r \<and> cproperties r \<noteq> [] \<and>
      (case labelsOrTypes r of [] \<Rightarrow> False | l # ls \<Rightarrow> l = label))"

section \<open>Tabular files\<close>

text \<open>
  A tabular file is held as its parsed rows, the header row first; the empty list is an
  empty file. The quoting of the \<^verbatim>\<open>csv\<close> module is taken as lossless (a carriage return
  inside a cell, which a text-mode read translates, is not modelled). The output directory
  is a map from file name to content.
\<close>

type_synonym csv_file = "string list list"

text \<open>\<^verbatim>\<open>str(n)\<close> for an integer.\<close>

fun show_nat :: "nat \<Rightarrow> string" where
  "show_nat n =
     (if n < 10 then [char_of (48 + n)]
      else show_nat (n div 10) @ [char_of (48 + n mod 10)])"

declare show_nat.simps [simp del]

definition show_int :: "int \<Rightarrow> string" where
  "show_int i = (if i < 0 then CHR ''-'' # show_nat (nat (- i)) else show_nat (nat i))"

text \<open>
  What \<^verbatim>\<open>csv.writer\<close> writes for a value: nothing for \<^verbatim>\<open>None\<close>, a string as it is,
  \<^verbatim>\<open>str(value)\<close> otherwise.
\<close>

fun csv_cell :: "pyval \<Rightarrow> string" where
  "csv_cell PNone = []"
| "csv_cell (PStr s) = s"
| "csv_cell (PBool b) = (if b then ''True'' else ''False'')"
| "csv_cell (PInt i) = show_int i"
| "csv_cell (PList r) = r"

text \<open>
  \<^verbatim>\<open>DictWriter(fieldnames=..., extrasaction='ignore', restval='NULL')\<close> on one row:
  \<^verbatim>\<open>rowdict.get(key, 'NULL')\<close> for each field name.
\<close>

definition dict_to_row :: "string list \<Rightarrow> props \<Rightarrow> string list" where
  "dict_to_row fieldnames rowdict =
     map (\<lambda>key. case map_of rowdict key of None \<Rightarrow> ''NULL'' | Some v \<Rightarrow> csv_cell v) fieldnames"

text \<open>\<^verbatim>\<open>d[k] = v\<close> on an insertion-ordered dictionary, and \<^verbatim>\<open>d.update(other)\<close>.\<close>

fun dict_set :: "('k \<times> 'v) list \<Rightarrow> 'k \<Rightarrow> 'v \<Rightarrow> ('k \<times> 'v) list" where
  "dict_set [] k v = [(k, v)]"
| "dict_set ((k', v') # d) k v = (if k' = k then (k, v) # d else (k', v') # dict_set d k v)"

definition dict_update :: "('k \<times> 'v) list \<Rightarrow> ('k \<times> 'v) list \<Rightarrow> ('k \<times> 'v) list" where
  "dict_update d other = foldl (\<lambda>acc (k, v). dict_set acc k v) d other"

section \<open>The exporter and node export\<close>

record exporter =
  unique_constraints :: "string \<rightharpoonup> string list"
  label_identifiers :: "string \<rightharpoonup> string"
  files :: "string \<rightharpoonup> csv_file"

text \<open>
  \<^verbatim>\<open>self.metadata\<close> as label or type with its element kind; the node labels and the
  relationship types are read off it in its order.
\<close>

definition node_labels :: "(string \<times> string) list \<Rightarrow> string list" where
  "node_labels metadata = map fst (filter (\<lambda>(label, kind). kind = ''node'') metadata)"

definition rel_types :: "(string \<times> string) list \<Rightarrow> string list" where
  "rel_types metadata = map fst (filter (\<lambda>(label, kind). kind = ''relationship'') metadata)"

text \<open>The set \<^verbatim>\<open>all_properties\<close> of \<^verbatim>\<open>export_nodes\<close>, as a list without repetition.\<close>

definition observed_properties :: "props list \<Rightarrow> string list" where
  "observed_properties nodes = remdups (concat (map (map fst) nodes))"

text \<open>
  The body of the loop of \<^verbatim>\<open>export_nodes\<close> for a label that has records. An exception
  of \<^verbatim>\<open>_determine_identifier\<close> leaves the body before anything is stored.
\<close>

definition export_label ::
  "exporter \<Rightarrow> string \<Rightarrow> props list \<Rightarrow> py_error + exporter \<times> string list" where
  "export_label st label nodes =
     (case determine_identifier (unique_constraints st) label
             (sort (observed_properties nodes)) nodes of
        Inl e \<Rightarrow> Inl e
      | Inr identifier \<Rightarrow>
          (let nodes_with_id =
                 filter (\<lambda>node. \<not> in_null_list (node_get node identifier)) nodes;
               sorted_properties =
                 identifier # sort (filter (\<lambda>p. p \<noteq> identifier) (observed_properties nodes))
           in Inr (st\<lparr>label_identifiers := (label_identifiers st)(label \<mapsto> identifier),
                       files := (files st)(label @ ''.csv'' \<mapsto>
                          sorted_properties # map (dict_to_row sorted_properties) nodes_with_id)\<rparr>,
                   sorted_properties)))"

text \<open>
  \<^verbatim>\<open>export_nodes\<close>: \<open>db label\<close> is the answer of \<^verbatim>\<open>MATCH (n:label) RETURN n\<close>, and
  \<open>exported\<close> the dictionary \<^verbatim>\<open>exported_files\<close>. Nothing in the loop catches an
  exception, so the first one ends the loop; the state reached is returned with it, since
  the files written so far stay on disk.
\<close>

fun export_nodes ::
  "exporter \<Rightarrow> (string \<Rightarrow> props list) \<Rightarrow> string list \<Rightarrow> (string \<times> string list) list
     \<Rightarrow> exporter \<times> (py_error + (string \<times> string list) list)" where
  "export_nodes st db [] exported = (st, Inr exported)"
| "export_nodes st db (label # rest) exported =
     (if db label = [] then export_nodes st db rest exported
      else
        (case export_label st label (db label) of
           Inl e \<Rightarrow> (st, Inl e)
         | Inr (st', sorted_properties) \<Rightarrow>
             export_nodes st' db rest (dict_set exported label sorted_properties)))"

section \<open>Relationship export\<close>

record rel_info =
  rel_type :: string
  all_properties :: "string list"
  rel_properties :: "string list"
  source_label :: string
  target_label :: string
  source_id_prop :: string
  target_id_prop :: string
  source_col_name :: string
  target_col_name :: string

text \<open>The two endpoint column names of a pattern.\<close>

definition col_names :: "string \<Rightarrow> string \<Rightarrow> string \<Rightarrow> string \<Rightarrow> string \<times> string" where
  "col_names src sp tgt tp =
     (if src = tgt \<and> sp = tp
      then (src @ ''_'' @ sp @ ''_source'', tgt @ ''_'' @ tp @ ''_target'')
      else (src @ ''_'' @ sp, tgt @ ''_'' @ tp))"

text \<open>
  A record of the pattern query is (source, r, target). The row kept for it:
  \<^verbatim>\<open>{source_col_name: ..., target_col_name: ...}\<close>, then \<^verbatim>\<open>rel_data.update(rel)\<close>.
\<close>

definition endpoints_present :: "string \<Rightarrow> string \<Rightarrow> props \<times> props \<times> props \<Rightarrow> bool" where
  "endpoints_present sp tp rec =
     (case rec of (s, r, t) \<Rightarrow>
        \<not> (in_null_list (node_get s sp) \<or> in_null_list (node_get t tp)))"

definition rel_data :: "string \<Rightarrow> string \<Rightarrow> string \<Rightarrow> string \<Rightarrow> props \<times> props \<times> props \<Rightarrow> props" where
  "rel_data sc tc sp tp rec =
     (case rec of (s, r, t) \<Rightarrow>
        dict_update (dict_set [(sc, node_get s sp)] tc (node_get t tp)) r)"

text \<open>
  The body of the second loop of \<^verbatim>\<open>export_relationships\<close> for one pattern and the
  records of its query. \<^verbatim>\<open>not source_id_prop\<close> holds of \<^verbatim>\<open>None\<close> and of the empty
  string. \<open>None\<close> is a pattern left by \<^verbatim>\<open>continue\<close>.
\<close>

definition export_pattern ::
  "exporter \<Rightarrow> string \<times> string \<times> string \<Rightarrow> (props \<times> props \<times> props) list
     \<Rightarrow> exporter \<times> rel_info option" where
  "export_pattern st pat records =
     (case pat of (src, rt, tgt) \<Rightarrow>
        (case (label_identifiers st src, label_identifiers st tgt) of
           (Some sp, Some tp) \<Rightarrow>
             if sp = [] \<or> tp = [] then (st, None)
             else
               (let sc = fst (col_names src sp tgt tp);
                    tc = snd (col_names src sp tgt tp);
                    kept = filter (endpoints_present sp tp) records;
                    relationships = map (rel_data sc tc sp tp) kept;
                    rel_props = remdups (concat (map (\<lambda>(s, r, t). map fst r) kept));
                    sorted_properties = [sc, tc] @ sort rel_props
                in if relationships = [] then (st, None)
                   else
                     (st\<lparr>files := (files st)(src @ ''_'' @ rt @ ''_'' @ tgt @ ''.csv'' \<mapsto>
                            sorted_properties # map (dict_to_row sorted_properties) relationships)\<rparr>,
                      Some \<lparr>rel_type = rt, all_properties = sorted_properties,
                            rel_properties = sort rel_props,
                            source_label = src, target_label = tgt,
                            source_id_prop = sp, target_id_prop = tp,
                            source_col_name = sc, target_col_name = tc\<rparr>))
         | _ \<Rightarrow> (st, None)))"

text \<open>
  \<^verbatim>\<open>export_relationships\<close>: the patterns are the answers of the distinct-pattern
  queries of the relationship types, in order; \<open>rdb pat\<close> is the answer of the pattern's
  record query.
\<close>

definition discover_patterns ::
  "(string \<Rightarrow> (string \<times> string \<times> string) list) \<Rightarrow> string list \<Rightarrow> (string \<times> string \<times> string) list" where
  "discover_patterns pattern_query rts = concat (map pattern_query rts)"

definition pattern_key :: "string \<times> string \<times> string \<Rightarrow> string" where
  "pattern_key pat = (case pat of (src, rt, tgt) \<Rightarrow> src @ ''_'' @ rt @ ''_'' @ tgt)"

fun export_relationships ::
  "exporter \<Rightarrow> (string \<times> string \<times> string \<Rightarrow> (props \<times> props \<times> props) list)
     \<Rightarrow> (string \<times> string \<times> string) list \<Rightarrow> (string \<times> rel_info) list
     \<Rightarrow> exporter \<times> (string \<times> rel_info) list" where
  "export_relationships st rdb [] exported = (st, exported)"
| "export_relationships st rdb (pat # rest) exported =
     (case export_pattern st pat (rdb pat) of
        (st', None) \<Rightarrow> export_relationships st' rdb rest exported
      | (st', Some info) \<Rightarrow>
          export_relationships st' rdb rest (dict_set exported (pattern_key pat) info))"

section \<open>Type inference\<close>

definition is_digit :: "char \<Rightarrow> bool" where
  "is_digit c = (CHR ''0'' \<le> c \<and> c \<le> CHR ''9'')"

text \<open>The characters \<^verbatim>\<open>int()\<close> and \<^verbatim>\<open>float()\<close> strip as white space, by code point.\<close>

definition py_isspace :: "char \<Rightarrow> bool" where
  "py_isspace c = ((of_char c :: nat) \<in> set [9, 10, 11, 12, 13, 32, 133, 160])"

definition py_strip :: "string \<Rightarrow> string" where
  "py_strip s = rev (dropWhile py_isspace (rev (dropWhile py_isspace s)))"

definition strip_sign :: "string \<Rightarrow> string" where
  "strip_sign s =
     (case s of [] \<Rightarrow> [] | c # cs \<Rightarrow> if c = CHR ''+'' \<or> c = CHR ''-'' then cs else s)"

text \<open>Decimal digits with single underscores between them.\<close>

fun digits_us :: "string \<Rightarrow> bool" where
  "digits_us [] = False"
| "digits_us [c] = is_digit c"
| "digits_us (c # d # cs) =
     (is_digit c \<and> (if d = CHR ''_'' then digits_us cs else digits_us (d # cs)))"

text \<open>
  \<^verbatim>\<open>int(value)\<close> does not raise \<^verbatim>\<open>ValueError\<close>: white space around, an optional sign,
  digits with underscores between them, and no more digits than the interpreter's
  default limit of 4300.
\<close>

definition int_parses :: "string \<Rightarrow> bool" where
  "int_parses s =
     (let t = strip_sign (py_strip s)
      in digits_us t \<and> length (filter is_digit t) \<le> 4300)"

text \<open>In \<^verbatim>\<open>float(value)\<close> an underscore stands only between two digits.\<close>

fun underscores_ok :: "char option \<Rightarrow> string \<Rightarrow> bool" where
  "underscores_ok prev [] = True"
| "underscores_ok prev (c # cs) =
     (if c = CHR ''_''
      then (case prev of None \<Rightarrow> False | Some p \<Rightarrow> is_digit p) \<and>
           (case cs of [] \<Rightarrow> False | d # ds \<Rightarrow> is_digit d) \<and> underscores_ok (Some c) cs
      else underscores_ok (Some c) cs)"

text \<open>An exponent after the mantissa: nothing, or \<^verbatim>\<open>e\<close>, an optional sign and digits.\<close>

definition exponent_ok :: "string \<Rightarrow> bool" where
  "exponent_ok s =
     (case s of
        [] \<Rightarrow> True
      | c # cs \<Rightarrow> (c = CHR ''e'' \<or> c = CHR ''E'') \<and>
                  strip_sign cs \<noteq> [] \<and> list_all is_digit (strip_sign cs))"

text \<open>Digits, an optional point and digits, at least one digit, then the exponent.\<close>

definition decimal_ok :: "string \<Rightarrow> bool" where
  "decimal_ok s =
     (let ipart = takeWhile is_digit s; r1 = dropWhile is_digit s
      in case r1 of
           c # cs \<Rightarrow>
             if c = CHR ''.''
             then (ipart \<noteq> [] \<or> takeWhile is_digit cs \<noteq> []) \<and>
                  exponent_ok (dropWhile is_digit cs)
             else ipart \<noteq> [] \<and> exponent_ok r1
         | [] \<Rightarrow> ipart \<noteq> [])"

text \<open>\<^verbatim>\<open>float(value)\<close> does not raise \<^verbatim>\<open>ValueError\<close>.\<close>

definition float_parses :: "string \<Rightarrow> bool" where
  "float_parses s =
     (let t = py_strip s;
          body = strip_sign (filter (\<lambda>c. c \<noteq> CHR ''_'') t)
      in underscores_ok None t \<and>
         (py_lower body \<in> set [''inf'', ''infinity'', ''nan''] \<or> decimal_ok body))"

text \<open>\<^verbatim>\<open>_infer_type(value)\<close> on a string.\<close>

definition infer_type :: "string \<Rightarrow> string" where
  "infer_type v =
     (if v = [] \<or> v = ''NULL'' then ''string''
      else if int_parses v then ''integer''
      else if float_parses v then ''float''
      else if py_lower v \<in> set [''true'', ''false''] then ''boolean''
      else ''string'')"

section \<open>Sample rows\<close>

text \<open>
  The first row \<^verbatim>\<open>csv.DictReader\<close> yields, \<^verbatim>\<open>next(reader, {})\<close>: the first line names the
  fields, empty rows are skipped, a short row is padded with \<^verbatim>\<open>None\<close> and of two fields
  of one name the later wins.
\<close>

type_synonym sample = "(string \<times> string option) list"

definition first_row :: "csv_file \<Rightarrow> sample" where
  "first_row f =
     (case f of
        [] \<Rightarrow> []
      | fieldnames # body \<Rightarrow>
          (case dropWhile (\<lambda>r. r = []) body of
             [] \<Rightarrow> []
           | row # later \<Rightarrow>
               rev (zip fieldnames
                      (map Some row @ replicate (length fieldnames - length row) None))))"

text \<open>The \<^verbatim>\<open>try\<close> block around the read: a file that cannot be opened leaves \<^verbatim>\<open>{}\<close>.\<close>

definition read_sample :: "(string \<rightharpoonup> csv_file) \<Rightarrow> string \<Rightarrow> sample" where
  "read_sample fs filename = (case fs filename of None \<Rightarrow> [] | Some f \<Rightarrow> first_row f)"

text \<open>\<^verbatim>\<open>sample_data.get(prop, "")\<close>, a string or \<^verbatim>\<open>None\<close>.\<close>

definition sample_get :: "sample \<Rightarrow> string \<Rightarrow> string option" where
  "sample_get sd prop = (case map_of sd prop of None \<Rightarrow> Some [] | Some x \<Rightarrow> x)"

text \<open>\<^verbatim>\<open>self._infer_type(sample_data.get(prop, ""))\<close>; \<^verbatim>\<open>None\<close> is falsy.\<close>

definition inferred :: "sample \<Rightarrow> string \<Rightarrow> string" where
  "inferred sd prop = (case sample_get sd prop of None \<Rightarrow> ''string'' | Some v \<Rightarrow> infer_type v)"

text \<open>\<^verbatim>\<open>str(sample_data.get(prop, ""))[:50]\<close>.\<close>

definition sample_text :: "sample \<Rightarrow> string \<Rightarrow> string" where
  "sample_text sd prop = (case sample_get sd prop of None \<Rightarrow> ''None'' | Some v \<Rightarrow> take 50 v)"

section \<open>Schema documents\<close>

text \<open>
  The part of the generated document that comes from sample rows: for each node label and
  each relationship type entry its token and the (property, type) pairs, and for each table
  schema its file name and the (name, sample, type) triples of its fields. Reference
  tokens, mappings, key properties, constraints, indexes and the layout are left out.
\<close>

record schema_doc =
  nodeLabels :: "(string \<times> (string \<times> string) list) list"
  relationshipTypes :: "(string \<times> (string \<times> string) list) list"
  tableSchemas :: "(string \<times> (string \<times> string \<times> string) list) list"

definition typed_properties :: "sample \<Rightarrow> string list \<Rightarrow> (string \<times> string) list" where
  "typed_properties sd ps = map (\<lambda>prop. (prop, inferred sd prop)) ps"

definition typed_fields :: "sample \<Rightarrow> string list \<Rightarrow> (string \<times> string \<times> string) list" where
  "typed_fields sd ps = map (\<lambda>prop. (prop, sample_text sd prop, inferred sd prop)) ps"

text \<open>
  The node loop, which the three generators share up to tokens: the sample is read from
  \<^verbatim>\<open>{label}.csv\<close>. The loop also leaves its last \<^verbatim>\<open>sample_data\<close> behind.
\<close>

definition add_node ::
  "(string \<rightharpoonup> csv_file) \<Rightarrow> schema_doc \<times> sample \<Rightarrow> string \<times> string list \<Rightarrow> schema_doc \<times> sample" where
  "add_node fs acc entry =
     (case (acc, entry) of ((doc, old), (label, properties)) \<Rightarrow>
        (let sample_data = read_sample fs (label @ ''.csv'')
         in (doc\<lparr>nodeLabels := nodeLabels doc @ [(label, typed_properties sample_data properties)],
                 tableSchemas := dict_set (tableSchemas doc) (label @ ''.csv'')
                                   (typed_fields sample_data properties)\<rparr>,
             sample_data)))"

definition add_node_list ::
  "(string \<rightharpoonup> csv_file) \<Rightarrow> schema_doc \<times> sample \<Rightarrow> string \<times> string list \<Rightarrow> schema_doc \<times> sample" where
  "add_node_list fs acc entry =
     (case (acc, entry) of ((doc, old), (label, properties)) \<Rightarrow>
        (let sample_data = read_sample fs (label @ ''.csv'')
         in (doc\<lparr>nodeLabels := nodeLabels doc @ [(label, typed_properties sample_data properties)],
                 tableSchemas := tableSchemas doc @
                                   [(label @ ''.csv'', typed_fields sample_data properties)]\<rparr>,
             sample_data)))"

definition empty_doc :: schema_doc where
  "empty_doc = \<lparr>nodeLabels = [], relationshipTypes = [], tableSchemas = []\<rparr>"

definition rel_file_name :: "rel_info \<Rightarrow> string" where
  "rel_file_name info =
     source_label info @ ''_'' @ rel_type info @ ''_'' @ target_label info @ ''.csv''"

text \<open>
  The relationship loop of \<^verbatim>\<open>_generate_model_v3_0\<close>. The state carries the relationship
  types seen and the variable \<^verbatim>\<open>sample_data\<close>, which is assigned only when a type is new.
  A pattern whose label has no entry in \<^verbatim>\<open>node_label_map\<close> is left by \<^verbatim>\<open>continue\<close>.
\<close>

definition add_rel_v3_0 ::
  "(string \<rightharpoonup> csv_file) \<Rightarrow> string list \<Rightarrow> schema_doc \<times> sample \<times> string list \<Rightarrow> string \<times> rel_info
     \<Rightarrow> schema_doc \<times> sample \<times> string list" where
  "add_rel_v3_0 fs labels acc entry =
     (case (acc, entry) of ((doc, old, seen), (key, info)) \<Rightarrow>
        if source_label info \<notin> set labels \<or> target_label info \<notin> set labels
        then (doc, old, seen)
        else
          (let fresh = rel_type info \<notin> set seen;
               sample_data = (if fresh then read_sample fs (rel_file_name info) else old);
               doc1 = (if fresh
                       then doc\<lparr>relationshipTypes := relationshipTypes doc @
                              [(rel_type info, typed_properties sample_data (rel_properties info))]\<rparr>
                       else doc)
           in (doc1\<lparr>tableSchemas := tableSchemas doc1 @
                       [(rel_file_name info, typed_fields sample_data (all_properties info))]\<rparr>,
               sample_data,
               if fresh then seen @ [rel_type info] else seen)))"

definition generate_model_v3_0 ::
  "(string \<rightharpoonup> csv_file) \<Rightarrow> (string \<times> string list) list \<Rightarrow> (string \<times> rel_info) list \<Rightarrow> schema_doc" where
  "generate_model_v3_0 fs node_files rel_files =
     (case foldl (add_node_list fs) (empty_doc, []) node_files of (doc, sample_data) \<Rightarrow>
        fst (foldl (add_rel_v3_0 fs (map fst node_files)) (doc, sample_data, []) rel_files))"

text \<open>
  The relationship loop of \<^verbatim>\<open>_generate_model_v2_4\<close>: one entry per pattern, the sample
  read from \<^verbatim>\<open>{rel_type}.csv\<close>.
\<close>

definition add_rel_v2_4 ::
  "(string \<rightharpoonup> csv_file) \<Rightarrow> string list \<Rightarrow> schema_doc \<Rightarrow> string \<times> rel_info \<Rightarrow> schema_doc" where
  "add_rel_v2_4 fs labels doc entry =
     (case entry of (key, info) \<Rightarrow>
        if source_label info \<notin> set labels \<or> target_label info \<notin> set labels then doc
        else
          (let sample_data = read_sample fs (rel_type info @ ''.csv'')
           in doc\<lparr>relationshipTypes := relationshipTypes doc @
                     [(rel_type info, typed_properties sample_data (rel_properties info))],
                   tableSchemas := tableSchemas doc @
                     [(rel_file_name info, typed_fields sample_data (all_properties info))]\<rparr>))"

definition generate_model_v2_4 ::
  "(string \<rightharpoonup> csv_file) \<Rightarrow> (string \<times> string list) list \<Rightarrow> (string \<times> rel_info) list \<Rightarrow> schema_doc" where
  "generate_model_v2_4 fs node_files rel_files =
     foldl (add_rel_v2_4 fs (map fst node_files))
       (fst (foldl (add_node_list fs) (empty_doc, []) node_files)) rel_files"

text \<open>
  \<^verbatim>\<open>_generate_model_v0_1\<close>: the file schemas are a dictionary keyed by file name and only
  node files get one; a relationship schema takes its sample from \<^verbatim>\<open>{rel_type}.csv\<close>.
\<close>

definition add_rel_v0_1 ::
  "(string \<rightharpoonup> csv_file) \<Rightarrow> string list \<Rightarrow> schema_doc \<Rightarrow> string \<times> rel_info \<Rightarrow> schema_doc" where
  "add_rel_v0_1 fs labels doc entry =
     (case entry of (key, info) \<Rightarrow>
        if source_label info \<notin> set labels \<or> target_label info \<notin> set labels then doc
        else
          (let sample_data = read_sample fs (rel_type info @ ''.csv'')
           in doc\<lparr>relationshipTypes := relationshipTypes doc @
                     [(rel_type info, typed_properties sample_data (rel_properties info))]\<rparr>))"

definition generate_model_v0_1 ::
  "(string \<rightharpoonup> csv_file) \<Rightarrow> (string \<times> string list) list \<Rightarrow> (string \<times> rel_info) list \<Rightarrow> schema_doc" where
  "generate_model_v0_1 fs node_files rel_files =
     foldl (add_rel_v0_1 fs (map fst node_files))
       (fst (foldl (add_node fs) (empty_doc, []) node_files)) rel_files"

text \<open>\<^verbatim>\<open>generate_importer_model\<close>, by \<^verbatim>\<open>self.format_version\<close>.\<close>

definition generate_importer_model ::
  "string \<Rightarrow> (string \<rightharpoonup> csv_file) \<Rightarrow> (string \<times> string list) list \<Rightarrow> (string \<times> rel_info) list
     \<Rightarrow> schema_doc" where
  "generate_importer_model format_version fs node_files rel_files =
     (if format_version = ''3.0'' then generate_model_v3_0 fs node_files rel_files
      else if format_version = ''2.4.0'' then generate_model_v2_4 fs node_files rel_files
      else generate_model_v0_1 fs node_files rel_files)"

section \<open>The whole run\<close>

text \<open>
  \<^verbatim>\<open>export_all\<close> after the metadata and the constraints are collected: the node export,
  the relationship export, then the document of the chosen format version. An exception
  of the node export ends the run before the other two.
\<close>

definition export_all ::
  "string \<Rightarrow> exporter \<Rightarrow> (string \<times> string) list \<Rightarrow> (string \<Rightarrow> props list)
     \<Rightarrow> (string \<Rightarrow> (string \<times> string \<times> string) list)
     \<Rightarrow> (string \<times> string \<times> string \<Rightarrow> (props \<times> props \<times> props) list)
     \<Rightarrow> exporter \<times> (py_error + schema_doc)" where
  "export_all format_version st metadata db pattern_query rdb =
     (case export_nodes st db (node_labels metadata) [] of
        (st1, Inl e) \<Rightarrow> (st1, Inl e)
      | (st1, Inr node_files) \<Rightarrow>
          (case export_relationships st1 rdb
                  (discover_patterns pattern_query (rel_types metadata)) [] of
             (st2, rel_files) \<Rightarrow>
               (st2, Inr (generate_importer_model format_version (files st2) node_files rel_files))))"

section \<open>Conditions in the words of the specification\<close>

text \<open>
  The condition of the specification for keeping a row: the identifier value is present
  and is not \<^verbatim>\<open>None\<close>, the empty string or the \<^verbatim>\<open>NULL\<close> sentinel.
\<close>

definition identifier_present :: "props \<Rightarrow> string \<Rightarrow> bool" where
  "identifier_present node ident =
     (case map_of node ident of
        None \<Rightarrow> False
      | Some v \<Rightarrow> v \<noteq> PNone \<and> v \<noteq> PStr [] \<and> v \<noteq> PStr ''NULL'')"

text \<open>
  The test of the specification for step 4: the number of distinct sampled values of a
  property equals the number of its non-null samples.
\<close>

definition all_samples_unique :: "props list \<Rightarrow> string \<Rightarrow> bool" where
  "all_samples_unique nodes prop =
     (length (remdups (map py_key (sample_values nodes prop))) = length (sample_values nodes prop))"

section \<open>Example inputs\<close>

definition knows_exporter :: exporter where
  "knows_exporter = \<lparr>unique_constraints = Map.empty,
     label_identifiers = [''Person'' \<mapsto> ''id'', ''Account'' \<mapsto> ''id''], files = Map.empty\<rparr>"

definition order_exporter :: exporter where
  "order_exporter = \<lparr>unique_constraints = Map.empty,
     label_identifiers = [''Order'' \<mapsto> ''item_id'', ''Order_item'' \<mapsto> ''id''], files = Map.empty\<rparr>"

definition person_nodes :: "props list" where
  "person_nodes =
     [[(''id'', PInt 1), (''name'', PStr ''Ann'')],
      [(''id'', PStr ''''), (''name'', PStr ''Bob'')],
      [(''name'', PStr ''Cy''), (''age'', PInt 41)],
      [(''id'', PStr ''NULL'')],
      [(''id'', PInt 5), (''age'', PInt 30)]]"

definition fresh_exporter :: exporter where
  "fresh_exporter =
     \<lparr>unique_constraints = Map.empty, label_identifiers = Map.empty, files = Map.empty\<rparr>"

definition knows_records :: "(props \<times> props \<times> props) list" where
  "knows_records =
     [([(''id'', PInt 1)], [(''since'', PInt 2020)], [(''id'', PInt 2)]),
      ([(''id'', PInt 1)], [], [(''id'', PStr '''')]),
      ([(''name'', PStr ''Cy'')], [(''since'', PInt 1999)], [(''id'', PInt 2)]),
      ([(''id'', PInt 2)], [(''weight'', PBool True)], [(''id'', PInt 1)])]"

definition blank_email_nodes :: "props list" where
  "blank_email_nodes =
     [[(''email'', PStr ''''), (''nickname'', PStr ''ann'')],
      [(''email'', PStr ''''), (''nickname'', PStr ''bob'')]]"

definition shared_email_nodes :: "props list" where
  "shared_email_nodes =
     [[(''email'', PStr ''a@x.org''), (''name'', PStr ''Ann'')],
      [(''email'', PStr ''a@x.org''), (''name'', PStr ''Bob'')],
      [(''email'', PStr ''c@x.org'')]]"

definition movie_nodes :: "props list" where
  "movie_nodes =
     [[(''genres'', PList ''['Drama']''), (''title'', PStr ''Heat'')],
      [(''genres'', PList ''['Crime']''), (''title'', PStr ''Ronin'')]]"

definition tag_exporter :: exporter where
  "tag_exporter =
     \<lparr>unique_constraints = [''Tag'' \<mapsto> [''name'']], label_identifiers = Map.empty,
      files = Map.empty\<rparr>"

text \<open>A graph with a label whose only node has no property, and two labels with nodes.\<close>

definition bare_db :: "string \<Rightarrow> props list" where
  "bare_db label =
     (if label = ''Bare'' then [[]]
      else if label = ''Person'' then [[(''id'', PInt 1)], [(''id'', PInt 2)]]
      else if label = ''City'' then [[(''name'', PStr ''Oslo'')]]
      else [])"

definition rated_metadata :: "(string \<times> string) list" where
  "rated_metadata = [(''Person'', ''node''), (''City'', ''node''), (''RATED'', ''relationship'')]"

definition rated_patterns :: "string \<Rightarrow> (string \<times> string \<times> string) list" where
  "rated_patterns rt =
     (if rt = ''RATED''
      then [(''Person'', ''RATED'', ''Person''), (''Person'', ''RATED'', ''City'')]
      else [])"

definition rated_rdb :: "string \<times> string \<times> string \<Rightarrow> (props \<times> props \<times> props) list" where
  "rated_rdb pat =
     (if pat = (''Person'', ''RATED'', ''Person'')
      then [([(''id'', PInt 1)], [(''score'', PInt 5)], [(''id'', PInt 2)])]
      else if pat = (''Person'', ''RATED'', ''City'')
      then [([(''id'', PInt 1)], [(''score'', PStr ''high'')], [(''name'', PStr ''Oslo'')])]
      else [])"

section \<open>Resolution by a declared uniqueness constraint\<close>

lemma add_constraint_other:
  "\<not> declares label r \<Longrightarrow> add_constraint uc r label = uc label"
  by (auto simp: add_constraint_def declares_def Let_def split: list.splits)

lemma add_constraint_keeps_head:
  "uc label = Some (c # cs) \<Longrightarrow> \<exists>cs'. add_constraint uc r label = Some (c # cs')"
  by (auto simp: add_constraint_def Let_def)

lemma foldl_add_constraint_keeps_head:
  "uc label = Some (c # cs) \<Longrightarrow> \<exists>cs'. foldl add_constraint uc rows label = Some (c # cs')"
proof (induction rows arbitrary: uc cs)
  case Nil
  then show ?case by simp
next
  case (Cons r rows)
  from Cons.prems obtain cs' where "add_constraint uc r label = Some (c # cs')"
    using add_constraint_keeps_head [of uc label c cs r] by blast
  then show ?case
    using Cons.IH [of "add_constraint uc r" cs'] by simp
qed

lemma foldl_add_constraint_undeclared:
  "\<forall>r \<in> set rows. \<not> declares label r \<Longrightarrow> foldl add_constraint uc rows label = uc label"
  by (induction rows arbitrary: uc) (simp_all add: add_constraint_other)

lemma add_constraint_first:
  assumes "declares label r" and "uc label = None \<or> uc label = Some []"
  shows "\<exists>cs. add_constraint uc r label = Some (hd (cproperties r) # cs)"
proof -
  from assms(1) have u: "is_uniqueness r" and p: "cproperties r \<noteq> []"
    and l: "labelsOrTypes r \<noteq> []" "hd (labelsOrTypes r) = label"
    by (auto simp: declares_def split: list.splits)
  from p obtain x xs where x: "cproperties r = x # xs" by (cases "cproperties r") auto
  from assms(2) show ?thesis
    using u l x by (auto simp: add_constraint_def Let_def)
qed

text \<open>
  C1. A label with a declared uniqueness constraint resolves to the first property of its
  first such constraint, whatever the property list and the records are: both with the
  collected table \<open>uc\<close> as the code reads it, and from the rows the table is
  collected from.
\<close>

theorem constraint_identifier_wins:
  "(uc label = Some (c # cs) \<longrightarrow>
      determine_identifier uc label properties nodes = Inr c) \<and>
   ((\<forall>r \<in> set before. \<not> declares label r) \<and> declares label r \<longrightarrow>
      determine_identifier (get_unique_constraints Map.empty (before @ r # after))
        label properties nodes = Inr (hd (cproperties r)))"
proof (intro conjI impI)
  assume "uc label = Some (c # cs)"
  then show "determine_identifier uc label properties nodes = Inr c"
    by (simp add: determine_identifier_def)
next
  assume a: "(\<forall>r \<in> set before. \<not> declares label r) \<and> declares label r"
  let ?uc0 = "foldl add_constraint Map.empty before"
  from a have "?uc0 label = None"
    by (simp add: foldl_add_constraint_undeclared)
  with a obtain cs1 where "add_constraint ?uc0 r label = Some (hd (cproperties r) # cs1)"
    using add_constraint_first [of label r ?uc0] by blast
  then obtain cs2 where
    "foldl add_constraint (add_constraint ?uc0 r) after label = Some (hd (cproperties r) # cs2)"
    using foldl_add_constraint_keeps_head
      [of "add_constraint ?uc0 r" label "hd (cproperties r)" cs1 after] by blast
  then have "get_unique_constraints Map.empty (before @ r # after) label
      = Some (hd (cproperties r) # cs2)"
    by (simp add: get_unique_constraints_def)
  then show "determine_identifier (get_unique_constraints Map.empty (before @ r # after))
      label properties nodes = Inr (hd (cproperties r))"
    by (simp add: determine_identifier_def)
qed

theorem constraint_identifier_wins_witness:
  "determine_identifier [''Person'' \<mapsto> [''email'', ''ssn'']] ''Person''
      [''id'', ''name''] [[(''id'', PInt 1), (''name'', PStr ''Ann'')]] = Inr ''email'' \<and>
   determine_identifier
     (get_unique_constraints Map.empty
        ([\<lparr>ctype = ''NODE_PROPERTY_EXISTENCE'', labelsOrTypes = [''Person''], cproperties = [''name'']\<rparr>]
         @ \<lparr>ctype = ''UNIQUENESS'', labelsOrTypes = [''Person''], cproperties = [''email'']\<rparr>
         # [\<lparr>ctype = ''UNIQUENESS'', labelsOrTypes = [''Person''], cproperties = [''ssn'']\<rparr>]))
     ''Person'' [''id'', ''name''] [] = Inr ''email''"
proof -
  let ?ex = "\<lparr>ctype = ''NODE_PROPERTY_EXISTENCE'', labelsOrTypes = [''Person''], cproperties = [''name'']\<rparr>"
  let ?un = "\<lparr>ctype = ''UNIQUENESS'', labelsOrTypes = [''Person''], cproperties = [''email'']\<rparr>"
  have a: "\<not> declares ''Person'' ?ex" by code_simp
  have b: "declares ''Person'' ?un" by code_simp
  have c: "([''Person'' \<mapsto> [''email'', ''ssn'']] :: string \<rightharpoonup> string list) ''Person'' = Some (''email'' # [''ssn''])"
    by simp
  show ?thesis
    using a b c
      constraint_identifier_wins [of "[''Person'' \<mapsto> [''email'', ''ssn'']]" "''Person''" "''email''" "[''ssn'']"
        "[''id'', ''name'']" "[[(''id'', PInt 1), (''name'', PStr ''Ann'')]]" "[?ex]" ?un
        "[\<lparr>ctype = ''UNIQUENESS'', labelsOrTypes = [''Person''], cproperties = [''ssn'']\<rparr>]"]
      constraint_identifier_wins [of "[''Person'' \<mapsto> [''email'', ''ssn'']]" "''Person''" "''email''" "[''ssn'']"
        "[''id'', ''name'']" "[]" "[?ex]" ?un
        "[\<lparr>ctype = ''UNIQUENESS'', labelsOrTypes = [''Person''], cproperties = [''ssn'']\<rparr>]"]
    by simp
qed

section \<open>The order of type inference\<close>

lemma int_parses_not_sentinel: "int_parses v \<Longrightarrow> v \<noteq> [] \<and> v \<noteq> ''NULL''"
proof -
  have "\<not> int_parses []" by code_simp
  moreover have "\<not> int_parses ''NULL''" by code_simp
  ultimately show "int_parses v \<Longrightarrow> v \<noteq> [] \<and> v \<noteq> ''NULL''" by auto
qed

text \<open>
  C9. Type inference gives \<open>string\<close> for the empty value and for \<open>NULL\<close>; any other value
  is tried as an integer, then as a float, then against \<open>true\<close> and \<open>false\<close> without
  regard to case, and is a \<open>string\<close> otherwise. A value that parses as an integer is
  reported as \<open>integer\<close>, never as \<open>float\<close>.
\<close>

theorem infer_type_order:
  "infer_type [] = ''string'' \<and> infer_type ''NULL'' = ''string'' \<and>
   (int_parses v \<longrightarrow> infer_type v = ''integer'' \<and> infer_type v \<noteq> ''float'') \<and>
   (v \<noteq> [] \<and> v \<noteq> ''NULL'' \<and> \<not> int_parses v \<and> float_parses v \<longrightarrow> infer_type v = ''float'') \<and>
   (v \<noteq> [] \<and> v \<noteq> ''NULL'' \<and> \<not> int_parses v \<and> \<not> float_parses v \<longrightarrow>
      infer_type v = (if py_lower v = ''true'' \<or> py_lower v = ''false'' then ''boolean'' else ''string'')) \<and>
   infer_type ''42'' = ''integer'' \<and> infer_type ''3.14'' = ''float'' \<and>
   infer_type ''true'' = ''boolean'' \<and> infer_type ''FALSE'' = ''boolean'' \<and>
   infer_type ''abc'' = ''string''"
proof -
  have e1: "infer_type ''42'' = ''integer''" by code_simp
  have e2: "infer_type ''3.14'' = ''float''" by code_simp
  have e3: "infer_type ''true'' = ''boolean''" by code_simp
  have e4: "infer_type ''FALSE'' = ''boolean''" by code_simp
  have e5: "infer_type ''abc'' = ''string''" by code_simp
  have i: "int_parses v \<longrightarrow> infer_type v = ''integer'' \<and> infer_type v \<noteq> ''float''"
    using int_parses_not_sentinel [of v] by (simp add: infer_type_def)
  have f: "v \<noteq> [] \<and> v \<noteq> ''NULL'' \<and> \<not> int_parses v \<and> float_parses v \<longrightarrow> infer_type v = ''float''"
    by (simp add: infer_type_def)
  have b: "v \<noteq> [] \<and> v \<noteq> ''NULL'' \<and> \<not> int_parses v \<and> \<not> float_parses v \<longrightarrow>
      infer_type v = (if py_lower v = ''true'' \<or> py_lower v = ''false'' then ''boolean'' else ''string'')"
    by (simp add: infer_type_def)
  have n: "infer_type [] = ''string'' \<and> infer_type ''NULL'' = ''string''"
    by (simp add: infer_type_def)
  from n i f b e1 e2 e3 e4 e5 show ?thesis by blast
qed

theorem infer_type_order_witness:
  "int_parses ''1_000'' \<and> infer_type ''1_000'' = ''integer'' \<and>
   \<not> int_parses ''1e5'' \<and> float_parses ''1e5'' \<and> infer_type ''1e5'' = ''float'' \<and>
   \<not> int_parses ''True'' \<and> \<not> float_parses ''True'' \<and> infer_type ''True'' = ''boolean'' \<and>
   \<not> int_parses ''4 2'' \<and> \<not> float_parses ''4 2'' \<and> infer_type ''4 2'' = ''string''"
proof -
  have a: "int_parses ''1_000''" by code_simp
  have b: "\<not> int_parses ''1e5'' \<and> float_parses ''1e5''" by code_simp
  have c: "\<not> int_parses ''True'' \<and> \<not> float_parses ''True'' \<and> py_lower ''True'' = ''true''" by code_simp
  have d: "\<not> int_parses ''4 2'' \<and> \<not> float_parses ''4 2'' \<and> py_lower ''4 2'' = ''4 2''" by code_simp
  show ?thesis
    using a b c d infer_type_order [of "''1_000''"] infer_type_order [of "''1e5''"]
      infer_type_order [of "''True''"] infer_type_order [of "''4 2''"]
    by simp
qed

section \<open>Endpoint column names\<close>

lemma joined_names_equal:
  assumes "src @ ''_'' @ sp = tgt @ ''_'' @ tp" and "src \<noteq> tgt"
  shows "prefix (src @ ''_'') tgt \<or> prefix (tgt @ ''_'') src"
proof -
  from assms(1) obtain us where
    "(src = tgt @ us \<and> us @ ''_'' @ sp = ''_'' @ tp) \<or> (src @ us = tgt \<and> ''_'' @ sp = us @ ''_'' @ tp)"
    by (auto simp: append_eq_append_conv2)
  then show ?thesis
  proof
    assume a: "src = tgt @ us \<and> us @ ''_'' @ sp = ''_'' @ tp"
    with assms(2) have "us \<noteq> []" by auto
    with a obtain vs where "us = CHR ''_'' # vs" by (cases us) auto
    with a show ?thesis by (simp add: prefix_def)
  next
    assume a: "src @ us = tgt \<and> ''_'' @ sp = us @ ''_'' @ tp"
    with assms(2) have "us \<noteq> []" by auto
    with a obtain vs where "us = CHR ''_'' # vs" by (cases us) auto
    with a show ?thesis by (auto simp: prefix_def)
  qed
qed

lemma export_pattern_Some:
  assumes "snd (export_pattern st (src, rt, tgt) records) = Some info"
  shows "\<exists>sp tp. label_identifiers st src = Some sp \<and> label_identifiers st tgt = Some tp \<and>
           sp \<noteq> [] \<and> tp \<noteq> [] \<and>
           filter (endpoints_present sp tp) records \<noteq> [] \<and>
           source_col_name info = fst (col_names src sp tgt tp) \<and>
           target_col_name info = snd (col_names src sp tgt tp) \<and>
           source_id_prop info = sp \<and> target_id_prop info = tp \<and>
           all_properties info = [source_col_name info, target_col_name info] @ rel_properties info \<and>
           files (fst (export_pattern st (src, rt, tgt) records)) (src @ ''_'' @ rt @ ''_'' @ tgt @ ''.csv'')
             = Some (all_properties info #
                 map (dict_to_row (all_properties info))
                   (map (rel_data (source_col_name info) (target_col_name info) sp tp)
                      (filter (endpoints_present sp tp) records)))"
  using assms
  by (auto simp: export_pattern_def Let_def split: option.splits if_splits)

text \<open>
  C2, as the code has it. A pattern that is flattened has both identifiers resolved; its
  endpoint columns are \<open>label_prop_source\<close> and \<open>label_prop_target\<close> when the two labels are
  equal, and \<open>label_prop\<close> on each side otherwise. The two names differ when the labels are
  equal, and when neither label followed by an underscore begins the other label.
\<close>

theorem endpoint_column_names:
  assumes "snd (export_pattern st (src, rt, tgt) records) = Some info"
  shows "\<exists>sp tp. label_identifiers st src = Some sp \<and> label_identifiers st tgt = Some tp \<and>
           source_col_name info = (if src = tgt then src @ ''_'' @ sp @ ''_source'' else src @ ''_'' @ sp) \<and>
           target_col_name info = (if src = tgt then tgt @ ''_'' @ tp @ ''_target'' else tgt @ ''_'' @ tp) \<and>
           take 2 (all_properties info) = [source_col_name info, target_col_name info] \<and>
           (src = tgt \<or> (\<not> prefix (src @ ''_'') tgt \<and> \<not> prefix (tgt @ ''_'') src)
              \<longrightarrow> source_col_name info \<noteq> target_col_name info)"
proof -
  from export_pattern_Some [OF assms] obtain sp tp where
    s: "label_identifiers st src = Some sp" and t: "label_identifiers st tgt = Some tp" and
    sc: "source_col_name info = fst (col_names src sp tgt tp)" and
    tc: "target_col_name info = snd (col_names src sp tgt tp)" and
    ap: "all_properties info = [source_col_name info, target_col_name info] @ rel_properties info"
    by blast
  have eq: "src = tgt \<Longrightarrow> sp = tp" using s t by simp
  have n1: "source_col_name info = (if src = tgt then src @ ''_'' @ sp @ ''_source'' else src @ ''_'' @ sp)"
    using sc eq by (simp add: col_names_def)
  have n2: "target_col_name info = (if src = tgt then tgt @ ''_'' @ tp @ ''_target'' else tgt @ ''_'' @ tp)"
    using tc eq by (simp add: col_names_def)
  have d: "src = tgt \<or> (\<not> prefix (src @ ''_'') tgt \<and> \<not> prefix (tgt @ ''_'') src)
             \<longrightarrow> source_col_name info \<noteq> target_col_name info"
  proof (cases "src = tgt")
    case True
    then show ?thesis using n1 n2 eq by simp
  next
    case False
    then show ?thesis using n1 n2 joined_names_equal [of src sp tgt tp] by auto
  qed
  from s t n1 n2 ap d show ?thesis by simp
qed


theorem endpoint_column_names_witness:
  "snd (export_pattern knows_exporter (''Person'', ''KNOWS'', ''Person'')
          [([(''id'', PInt 1)], [(''since'', PInt 2020)], [(''id'', PInt 2)])])
     = Some \<lparr>rel_type = ''KNOWS'',
             all_properties = [''Person_id_source'', ''Person_id_target'', ''since''],
             rel_properties = [''since''],
             source_label = ''Person'', target_label = ''Person'',
             source_id_prop = ''id'', target_id_prop = ''id'',
             source_col_name = ''Person_id_source'', target_col_name = ''Person_id_target''\<rparr> \<and>
   snd (export_pattern knows_exporter (''Person'', ''OWNS'', ''Account'')
          [([(''id'', PInt 1)], [], [(''id'', PInt 2)])])
     = Some \<lparr>rel_type = ''OWNS'',
             all_properties = [''Person_id'', ''Account_id''],
             rel_properties = [],
             source_label = ''Person'', target_label = ''Account'',
             source_id_prop = ''id'', target_id_prop = ''id'',
             source_col_name = ''Person_id'', target_col_name = ''Account_id''\<rparr> \<and>
   ''Person_id_source'' \<noteq> ''Person_id_target'' \<and> ''Person_id'' \<noteq> ''Account_id''"
proof -
  let ?i1 = "\<lparr>rel_type = ''KNOWS'',
             all_properties = [''Person_id_source'', ''Person_id_target'', ''since''],
             rel_properties = [''since''],
             source_label = ''Person'', target_label = ''Person'',
             source_id_prop = ''id'', target_id_prop = ''id'',
             source_col_name = ''Person_id_source'', target_col_name = ''Person_id_target''\<rparr>"
  let ?i2 = "\<lparr>rel_type = ''OWNS'',
             all_properties = [''Person_id'', ''Account_id''],
             rel_properties = [],
             source_label = ''Person'', target_label = ''Account'',
             source_id_prop = ''id'', target_id_prop = ''id'',
             source_col_name = ''Person_id'', target_col_name = ''Account_id''\<rparr>"
  have a: "snd (export_pattern knows_exporter (''Person'', ''KNOWS'', ''Person'')
          [([(''id'', PInt 1)], [(''since'', PInt 2020)], [(''id'', PInt 2)])]) = Some ?i1"
    by code_simp
  have b: "snd (export_pattern knows_exporter (''Person'', ''OWNS'', ''Account'')
          [([(''id'', PInt 1)], [], [(''id'', PInt 2)])]) = Some ?i2"
    by code_simp
  have p: "\<not> prefix (''Person'' @ ''_'') ''Account'' \<and> \<not> prefix (''Account'' @ ''_'') ''Person''"
    by simp
  show ?thesis
    using a b p endpoint_column_names [OF a] endpoint_column_names [OF b]
    by simp
qed

text \<open>
  The claim's last sentence fails where one label extends the other: \<open>Order\<close> identified by
  \<open>item_id\<close> and \<open>Order_item\<close> identified by \<open>id\<close> both give the column \<open>Order_item_id\<close>;
  the file has that header twice and the target's value in both cells.
\<close>


theorem endpoint_columns_collide:
  "map_option source_col_name
     (snd (export_pattern order_exporter (''Order'', ''HAS'', ''Order_item'')
             [([(''item_id'', PInt 7)], [], [(''id'', PInt 9)])])) = Some ''Order_item_id'' \<and>
   map_option target_col_name
     (snd (export_pattern order_exporter (''Order'', ''HAS'', ''Order_item'')
             [([(''item_id'', PInt 7)], [], [(''id'', PInt 9)])])) = Some ''Order_item_id'' \<and>
   files (fst (export_pattern order_exporter (''Order'', ''HAS'', ''Order_item'')
             [([(''item_id'', PInt 7)], [], [(''id'', PInt 9)])])) ''Order_HAS_Order_item.csv''
     = Some [[''Order_item_id'', ''Order_item_id''], [''9'', ''9'']]"
  by code_simp

section \<open>Rows and columns of the tabular files\<close>

lemma identifier_present_iff:
  "identifier_present node ident \<longleftrightarrow> \<not> in_null_list (node_get node ident)"
  by (simp add: identifier_present_def in_null_list_def node_get_def split: option.splits)

lemma export_label_Inr:
  assumes "export_label st label nodes = Inr (st', cols)"
  shows "\<exists>ident. determine_identifier (unique_constraints st) label
                     (sort (observed_properties nodes)) nodes = Inr ident \<and>
           label_identifiers st' = (label_identifiers st)(label \<mapsto> ident) \<and>
           unique_constraints st' = unique_constraints st \<and>
           cols = ident # sort (filter (\<lambda>p. p \<noteq> ident) (observed_properties nodes)) \<and>
           files st' = (files st)(label @ ''.csv'' \<mapsto>
              cols # map (dict_to_row cols) (filter (\<lambda>n. identifier_present n ident) nodes))"
  using assms
  by (auto simp: export_label_def Let_def identifier_present_iff split: sum.splits)

text \<open>
  C3. The rows written for a label are the rows of exactly those records whose identifier
  value is present and is not \<open>None\<close>, empty or \<open>NULL\<close>, in their order. For a pattern with
  both identifiers resolved, the rows written are those of exactly the records with both
  endpoint values present in that sense; when there is none, nothing is written.
\<close>

theorem rows_iff_identifier_present:
  "(export_label st label nodes = Inr (st', cols) \<longrightarrow>
      (\<exists>ident. label_identifiers st' label = Some ident \<and>
         files st' (label @ ''.csv'') =
           Some (cols # map (dict_to_row cols)
                          (filter (\<lambda>node. identifier_present node ident) nodes)))) \<and>
   (label_identifiers st src = Some sp \<and> label_identifiers st tgt = Some tp \<and>
    sp \<noteq> [] \<and> tp \<noteq> [] \<longrightarrow>
      (let kept = filter (\<lambda>(s, r, t). identifier_present s sp \<and> identifier_present t tp) records;
           sc = fst (col_names src sp tgt tp);
           tc = snd (col_names src sp tgt tp)
       in if kept = [] then export_pattern st (src, rt, tgt) records = (st, None)
          else \<exists>header. files (fst (export_pattern st (src, rt, tgt) records))
                  (src @ ''_'' @ rt @ ''_'' @ tgt @ ''.csv'')
                = Some (header # map (dict_to_row header) (map (rel_data sc tc sp tp) kept))))"
proof (intro conjI impI)
  assume "export_label st label nodes = Inr (st', cols)"
  from export_label_Inr [OF this]
  show "\<exists>ident. label_identifiers st' label = Some ident \<and>
         files st' (label @ ''.csv'') =
           Some (cols # map (dict_to_row cols)
                          (filter (\<lambda>node. identifier_present node ident) nodes))"
    by auto
next
  assume a: "label_identifiers st src = Some sp \<and> label_identifiers st tgt = Some tp \<and>
    sp \<noteq> [] \<and> tp \<noteq> []"
  have k: "filter (\<lambda>(s, r, t). identifier_present s sp \<and> identifier_present t tp) records
         = filter (endpoints_present sp tp) records"
    by (rule filter_cong) (auto simp: endpoints_present_def identifier_present_iff)
  show "let kept = filter (\<lambda>(s, r, t). identifier_present s sp \<and> identifier_present t tp) records;
           sc = fst (col_names src sp tgt tp);
           tc = snd (col_names src sp tgt tp)
       in if kept = [] then export_pattern st (src, rt, tgt) records = (st, None)
          else \<exists>header. files (fst (export_pattern st (src, rt, tgt) records))
                  (src @ ''_'' @ rt @ ''_'' @ tgt @ ''.csv'')
                = Some (header # map (dict_to_row header) (map (rel_data sc tc sp tp) kept))"
    unfolding k using a by (simp add: export_pattern_def Let_def)
qed


theorem rows_iff_identifier_present_witness:
  "export_label fresh_exporter ''Person'' person_nodes
     = Inr (fst (projr (export_label fresh_exporter ''Person'' person_nodes)),
            snd (projr (export_label fresh_exporter ''Person'' person_nodes))) \<and>
   (\<exists>ident. label_identifiers (fst (projr (export_label fresh_exporter ''Person'' person_nodes)))
               ''Person'' = Some ident \<and>
      files (fst (projr (export_label fresh_exporter ''Person'' person_nodes))) (''Person'' @ ''.csv'')
        = Some (snd (projr (export_label fresh_exporter ''Person'' person_nodes)) #
                map (dict_to_row (snd (projr (export_label fresh_exporter ''Person'' person_nodes))))
                  (filter (\<lambda>node. identifier_present node ident) person_nodes))) \<and>
   files (fst (projr (export_label fresh_exporter ''Person'' person_nodes))) ''Person.csv''
     = Some [[''id'', ''age'', ''name''], [''1'', ''NULL'', ''Ann''], [''5'', ''30'', ''NULL'']] \<and>
   label_identifiers knows_exporter ''Person'' = Some ''id'' \<and>
   filter (\<lambda>(s, r, t). identifier_present s ''id'' \<and> identifier_present t ''id'') knows_records
     = [knows_records ! 0, knows_records ! 3] \<and>
   (\<exists>header. files (fst (export_pattern knows_exporter (''Person'', ''KNOWS'', ''Person'') knows_records))
                (''Person'' @ ''_'' @ ''KNOWS'' @ ''_'' @ ''Person'' @ ''.csv'')
        = Some (header # map (dict_to_row header)
                  (map (rel_data (fst (col_names ''Person'' ''id'' ''Person'' ''id''))
                          (snd (col_names ''Person'' ''id'' ''Person'' ''id'')) ''id'' ''id'')
                     [knows_records ! 0, knows_records ! 3]))) \<and>
   files (fst (export_pattern knows_exporter (''Person'', ''KNOWS'', ''Person'') knows_records))
       ''Person_KNOWS_Person.csv''
     = Some [[''Person_id_source'', ''Person_id_target'', ''since'', ''weight''],
             [''1'', ''2'', ''2020'', ''NULL''], [''2'', ''1'', ''NULL'', ''True'']]"
proof -
  let ?r = "projr (export_label fresh_exporter ''Person'' person_nodes)"
  have d: "determine_identifier Map.empty ''Person''
             (sort (observed_properties person_nodes)) person_nodes = Inr ''id''"
    by code_simp
  have e: "export_label fresh_exporter ''Person'' person_nodes = Inr (fst ?r, snd ?r)"
    using d by (simp add: export_label_def fresh_exporter_def Let_def)
  have f: "files (fst ?r) ''Person.csv''
     = Some [[''id'', ''age'', ''name''], [''1'', ''NULL'', ''Ann''], [''5'', ''30'', ''NULL'']]"
    by code_simp
  have g: "label_identifiers knows_exporter ''Person'' = Some ''id''"
    by (simp add: knows_exporter_def)
  have h: "filter (\<lambda>(s, r, t). identifier_present s ''id'' \<and> identifier_present t ''id'') knows_records
     = [knows_records ! 0, knows_records ! 3]"
    by code_simp
  have i: "files (fst (export_pattern knows_exporter (''Person'', ''KNOWS'', ''Person'') knows_records))
       ''Person_KNOWS_Person.csv''
     = Some [[''Person_id_source'', ''Person_id_target'', ''since'', ''weight''],
             [''1'', ''2'', ''2020'', ''NULL''], [''2'', ''1'', ''NULL'', ''True'']]"
    by code_simp
  note t = rows_iff_identifier_present
      [of fresh_exporter "''Person''" person_nodes "fst ?r" "snd ?r"]
  note u = rows_iff_identifier_present
      [where st = knows_exporter and src = "''Person''" and sp = "''id''" and tgt = "''Person''"
         and tp = "''id''" and records = knows_records and rt = "''KNOWS''"]
  from t e have n: "\<exists>ident. label_identifiers (fst ?r) ''Person'' = Some ident \<and>
      files (fst ?r) (''Person'' @ ''.csv'')
        = Some (snd ?r # map (dict_to_row (snd ?r))
                  (filter (\<lambda>node. identifier_present node ident) person_nodes))"
    by blast
  from u g have "let kept = filter (\<lambda>(s, r, t). identifier_present s ''id'' \<and> identifier_present t ''id'') knows_records;
           sc = fst (col_names ''Person'' ''id'' ''Person'' ''id'');
           tc = snd (col_names ''Person'' ''id'' ''Person'' ''id'')
       in if kept = [] then export_pattern knows_exporter (''Person'', ''KNOWS'', ''Person'') knows_records
                              = (knows_exporter, None)
          else \<exists>header. files (fst (export_pattern knows_exporter (''Person'', ''KNOWS'', ''Person'') knows_records))
                  (''Person'' @ ''_'' @ ''KNOWS'' @ ''_'' @ ''Person'' @ ''.csv'')
                = Some (header # map (dict_to_row header) (map (rel_data sc tc ''id'' ''id'') kept))"
    by simp
  then have r: "\<exists>header. files (fst (export_pattern knows_exporter (''Person'', ''KNOWS'', ''Person'') knows_records))
                (''Person'' @ ''_'' @ ''KNOWS'' @ ''_'' @ ''Person'' @ ''.csv'')
        = Some (header # map (dict_to_row header)
                  (map (rel_data (fst (col_names ''Person'' ''id'' ''Person'' ''id''))
                          (snd (col_names ''Person'' ''id'' ''Person'' ''id'')) ''id'' ''id'')
                     [knows_records ! 0, knows_records ! 3]))"
    unfolding h Let_def by simp
  from e n f g h r i show ?thesis by blast
qed

text \<open>
  C8. The columns of a label's file are its identifier, then the other properties observed
  on its records in ascending order without repetition; every written row has one cell
  per column, and the cell of a property the record lacks is \<open>NULL\<close>.
\<close>

theorem node_columns_and_null_fill:
  assumes "export_label st label nodes = Inr (st', cols)"
  shows "\<exists>ident rest rows.
           label_identifiers st' label = Some ident \<and> cols = ident # rest \<and>
           sorted rest \<and> distinct rest \<and>
           set rest = (\<Union>node \<in> set nodes. fst ` set node) - {ident} \<and>
           files st' (label @ ''.csv'') = Some (cols # rows) \<and>
           rows = map (\<lambda>node. map (\<lambda>c. case map_of node c of
                                           None \<Rightarrow> ''NULL'' | Some v \<Rightarrow> csv_cell v) cols)
                    (filter (\<lambda>node. identifier_present node ident) nodes) \<and>
           (\<forall>row \<in> set rows. length row = length cols)"
proof -
  from export_label_Inr [OF assms] obtain ident where
    li: "label_identifiers st' = (label_identifiers st)(label \<mapsto> ident)" and
    c: "cols = ident # sort (filter (\<lambda>p. p \<noteq> ident) (observed_properties nodes))" and
    f: "files st' = (files st)(label @ ''.csv'' \<mapsto>
          cols # map (dict_to_row cols) (filter (\<lambda>n. identifier_present n ident) nodes))"
    by blast
  let ?rest = "sort (filter (\<lambda>p. p \<noteq> ident) (observed_properties nodes))"
  let ?rows = "map (dict_to_row cols) (filter (\<lambda>n. identifier_present n ident) nodes)"
  have s: "sorted ?rest" by simp
  have d: "distinct ?rest" by (simp add: observed_properties_def)
  have m: "set ?rest = (\<Union>node \<in> set nodes. fst ` set node) - {ident}"
    by (auto simp: observed_properties_def)
  have r: "?rows = map (\<lambda>node. map (\<lambda>c. case map_of node c of
                                           None \<Rightarrow> ''NULL'' | Some v \<Rightarrow> csv_cell v) cols)
                    (filter (\<lambda>node. identifier_present node ident) nodes)"
    by (simp add: dict_to_row_def)
  have l: "\<forall>row \<in> set ?rows. length row = length cols"
    by (auto simp: dict_to_row_def)
  from li c f s d m r l show ?thesis by auto
qed

theorem node_columns_and_null_fill_witness:
  "export_label fresh_exporter ''Person'' person_nodes
     = Inr (fst (projr (export_label fresh_exporter ''Person'' person_nodes)),
            snd (projr (export_label fresh_exporter ''Person'' person_nodes))) \<and>
   snd (projr (export_label fresh_exporter ''Person'' person_nodes)) = [''id'', ''age'', ''name''] \<and>
   files (fst (projr (export_label fresh_exporter ''Person'' person_nodes))) ''Person.csv''
     = Some [[''id'', ''age'', ''name''], [''1'', ''NULL'', ''Ann''], [''5'', ''30'', ''NULL'']] \<and>
   (\<exists>ident rest rows.
      label_identifiers (fst (projr (export_label fresh_exporter ''Person'' person_nodes))) ''Person''
        = Some ident \<and>
      snd (projr (export_label fresh_exporter ''Person'' person_nodes)) = ident # rest \<and>
      sorted rest \<and> distinct rest \<and>
      set rest = (\<Union>node \<in> set person_nodes. fst ` set node) - {ident} \<and>
      files (fst (projr (export_label fresh_exporter ''Person'' person_nodes))) (''Person'' @ ''.csv'')
        = Some (snd (projr (export_label fresh_exporter ''Person'' person_nodes)) # rows) \<and>
      rows = map (\<lambda>node. map (\<lambda>c. case map_of node c of
                                      None \<Rightarrow> ''NULL'' | Some v \<Rightarrow> csv_cell v)
                           (snd (projr (export_label fresh_exporter ''Person'' person_nodes))))
               (filter (\<lambda>node. identifier_present node ident) person_nodes) \<and>
      (\<forall>row \<in> set rows.
         length row = length (snd (projr (export_label fresh_exporter ''Person'' person_nodes)))))"
proof -
  let ?r = "projr (export_label fresh_exporter ''Person'' person_nodes)"
  have d: "determine_identifier Map.empty ''Person''
             (sort (observed_properties person_nodes)) person_nodes = Inr ''id''"
    by code_simp
  have e: "export_label fresh_exporter ''Person'' person_nodes = Inr (fst ?r, snd ?r)"
    using d by (simp add: export_label_def fresh_exporter_def Let_def)
  have c: "snd ?r = [''id'', ''age'', ''name'']" by code_simp
  have f: "files (fst ?r) ''Person.csv''
     = Some [[''id'', ''age'', ''name''], [''1'', ''NULL'', ''Ann''], [''5'', ''30'', ''NULL'']]"
    by code_simp
  from e c f node_columns_and_null_fill [OF e] show ?thesis by blast
qed

section \<open>Resolution by name\<close>

lemma hd_insort_key:
  "hd (insort_key f x ys) = (if ys = [] \<or> f x \<le> f (hd ys) then x else hd ys)"
  by (cases ys) auto

lemma sort_key_Nil_iff: "sort_key f xs = [] \<longleftrightarrow> xs = []"
  by (cases xs) (auto simp: insort_is_Cons dest: arg_cong [where f = length])

lemma hd_sort_key_first_least:
  "xs \<noteq> [] \<Longrightarrow>
     \<exists>pre post. xs = pre @ hd (sort_key f xs) # post \<and>
       (\<forall>c \<in> set pre. f (hd (sort_key f xs)) < f c) \<and>
       (\<forall>c \<in> set post. f (hd (sort_key f xs)) \<le> f c)"
proof (induction xs)
  case Nil
  then show ?case by simp
next
  case (Cons x xs)
  show ?case
  proof (cases "xs = []")
    case True
    then have "hd (sort_key f (x # xs)) = x" by simp
    moreover from True have "x # xs = [] @ x # [] \<and> (\<forall>c \<in> set []. f x < f c) \<and>
        (\<forall>c \<in> set []. f x \<le> f c)"
      by simp
    ultimately show ?thesis by metis
  next
    case False
    let ?r = "hd (sort_key f xs)"
    from Cons.IH [OF False] obtain pre post where
      d: "xs = pre @ ?r # post" and
      p: "\<forall>c \<in> set pre. f ?r < f c" and q: "\<forall>c \<in> set post. f ?r \<le> f c"
      by blast
    have ne: "sort_key f xs \<noteq> []" using False by (simp add: sort_key_Nil_iff)
    show ?thesis
    proof (cases "f x \<le> f ?r")
      case True
      then have h: "hd (sort_key f (x # xs)) = x" by (simp add: hd_insort_key)
      have "\<forall>c \<in> set xs. f x \<le> f c"
      proof
        fix c assume "c \<in> set xs"
        then have "c \<in> set pre \<or> c = ?r \<or> c \<in> set post"
          by (subst (asm) d) auto
        with p q have "f ?r \<le> f c" by (auto intro: less_imp_le)
        with True show "f x \<le> f c" by (rule order_trans)
      qed
      then have "x # xs = [] @ x # xs \<and> (\<forall>c \<in> set []. f x < f c) \<and> (\<forall>c \<in> set xs. f x \<le> f c)"
        by simp
      then show ?thesis unfolding h by blast
    next
      case False
      then have h: "hd (sort_key f (x # xs)) = ?r" using ne by (simp add: hd_insort_key)
      from False have "f ?r < f x" by simp
      with p have "\<forall>c \<in> set (x # pre). f ?r < f c" by simp
      moreover have "x # xs = (x # pre) @ ?r # post" by (subst d) simp
      ultimately show ?thesis unfolding h using q by blast
    qed
  qed
qed

lemma find_Some_split:
  "find P xs = Some p \<Longrightarrow> \<exists>pre post. xs = pre @ p # post \<and> P p \<and> (\<forall>q \<in> set pre. \<not> P q)"
proof (induction xs)
  case Nil
  then show ?case by simp
next
  case (Cons x xs)
  show ?case
  proof (cases "P x")
    case True
    with Cons.prems have "x = p" by simp
    with True have "x # xs = [] @ p # xs \<and> P p \<and> (\<forall>q \<in> set []. \<not> P q)" by simp
    then show ?thesis by blast
  next
    case False
    with Cons obtain pre post where "xs = pre @ p # post \<and> P p \<and> (\<forall>q \<in> set pre. \<not> P q)"
      by auto
    with False have "x # xs = (x # pre) @ p # post \<and> P p \<and> (\<forall>q \<in> set (x # pre). \<not> P q)"
      by simp
    then show ?thesis by blast
  qed
qed

text \<open>
  C5. Without a declared uniqueness constraint, a property whose lowered name is \<open>id\<close> is
  returned, the first such in the property order. When there is none but some lowered name
  ends in \<open>id\<close>, the result is such a property of least key (exact match before suffix
  match, then length), and the first of that key in the property order: every candidate
  before it has a greater key, none after it a smaller one.
\<close>

theorem id_name_heuristics:
  assumes "uc label = None \<or> uc label = Some []"
  shows "((\<exists>q \<in> set properties. py_lower q = ''id'') \<longrightarrow>
            (\<exists>p pre post. determine_identifier uc label properties nodes = Inr p \<and>
               properties = pre @ p # post \<and> py_lower p = ''id'' \<and>
               (\<forall>q \<in> set pre. py_lower q \<noteq> ''id''))) \<and>
         ((\<forall>q \<in> set properties. py_lower q \<noteq> ''id'') \<and>
          (\<exists>q \<in> set properties. endswith (py_lower q) ''id'') \<longrightarrow>
            (\<exists>r pre post. determine_identifier uc label properties nodes = Inr r \<and>
               r \<in> set properties \<and> endswith (py_lower r) ''id'' \<and>
               id_candidates properties = pre @ r # post \<and>
               (\<forall>c \<in> set pre. id_key r < id_key c \<and> length r < length c) \<and>
               (\<forall>c \<in> set post. id_key r \<le> id_key c \<and> length r \<le> length c)))"
proof (intro conjI impI)
  assume "\<exists>q \<in> set properties. py_lower q = ''id''"
  then obtain p where f: "find (\<lambda>q. py_lower q = ''id'') properties = Some p"
    by (cases "find (\<lambda>q. py_lower q = ''id'') properties") (auto simp: find_None_iff)
  from find_Some_split [OF f] obtain pre post where
    "properties = pre @ p # post \<and> py_lower p = ''id'' \<and> (\<forall>q \<in> set pre. py_lower q \<noteq> ''id'')"
    by blast
  moreover from assms f have "determine_identifier uc label properties nodes = Inr p"
    by (auto simp: determine_identifier_def)
  ultimately show "\<exists>p pre post. determine_identifier uc label properties nodes = Inr p \<and>
               properties = pre @ p # post \<and> py_lower p = ''id'' \<and>
               (\<forall>q \<in> set pre. py_lower q \<noteq> ''id'')"
    by blast
next
  assume a: "(\<forall>q \<in> set properties. py_lower q \<noteq> ''id'') \<and>
          (\<exists>q \<in> set properties. endswith (py_lower q) ''id'')"
  then have n: "find (\<lambda>q. py_lower q = ''id'') properties = None"
    by (simp add: find_None_iff)
  from a have ne: "id_candidates properties \<noteq> []"
    by (auto simp: id_candidates_def filter_empty_conv)
  let ?r = "hd (sort_key id_key (id_candidates properties))"
  from assms n ne have res: "determine_identifier uc label properties nodes = Inr ?r"
    by (auto simp: determine_identifier_def)
  from hd_sort_key_first_least [OF ne, of id_key] obtain pre post where
    d: "id_candidates properties = pre @ ?r # post" and
    p: "\<forall>c \<in> set pre. id_key ?r < id_key c" and q: "\<forall>c \<in> set post. id_key ?r \<le> id_key c"
    by blast
  have "?r \<in> set (id_candidates properties)" by (subst d) simp
  then have m: "?r \<in> set properties" "endswith (py_lower ?r) ''id''"
    by (auto simp: id_candidates_def)
  have "set pre \<union> set post \<subseteq> set (id_candidates properties)" by (subst d) auto
  moreover have "set (id_candidates properties) \<subseteq> set properties"
    by (auto simp: id_candidates_def)
  ultimately have sub: "set pre \<subseteq> set properties" "set post \<subseteq> set properties"
    by auto
  have k: "\<And>c. c \<in> set properties \<Longrightarrow> id_key c = (True, length c)"
    using a by (simp add: id_key_def)
  have p': "\<forall>c \<in> set pre. id_key ?r < id_key c \<and> length ?r < length c"
  proof
    fix c assume c: "c \<in> set pre"
    with p have "id_key ?r < id_key c" by blast
    moreover from c sub have "id_key c = (True, length c)" by (auto intro: k)
    moreover from m have "id_key ?r = (True, length ?r)" by (auto intro: k)
    ultimately show "id_key ?r < id_key c \<and> length ?r < length c" by (simp add: less_prod_def)
  qed
  have q': "\<forall>c \<in> set post. id_key ?r \<le> id_key c \<and> length ?r \<le> length c"
  proof
    fix c assume c: "c \<in> set post"
    with q have "id_key ?r \<le> id_key c" by blast
    moreover from c sub have "id_key c = (True, length c)" by (auto intro: k)
    moreover from m have "id_key ?r = (True, length ?r)" by (auto intro: k)
    ultimately show "id_key ?r \<le> id_key c \<and> length ?r \<le> length c" by (simp add: less_eq_prod_def)
  qed
  from res m d p' q' show "\<exists>r pre post. determine_identifier uc label properties nodes = Inr r \<and>
               r \<in> set properties \<and> endswith (py_lower r) ''id'' \<and>
               id_candidates properties = pre @ r # post \<and>
               (\<forall>c \<in> set pre. id_key r < id_key c \<and> length r < length c) \<and>
               (\<forall>c \<in> set post. id_key r \<le> id_key c \<and> length r \<le> length c)"
    by blast
qed


theorem id_name_heuristics_witness:
  "(\<exists>q \<in> set [''name'', ''userId'', ''id'']. py_lower q = ''id'') \<and>
   (\<exists>p pre post. determine_identifier Map.empty ''Person'' [''name'', ''userId'', ''id''] [] = Inr p \<and>
      [''name'', ''userId'', ''id''] = pre @ p # post \<and> py_lower p = ''id'' \<and>
      (\<forall>q \<in> set pre. py_lower q \<noteq> ''id'')) \<and>
   determine_identifier Map.empty ''Person'' [''name'', ''userId'', ''id''] [] = Inr ''id'' \<and>
   list_all (\<lambda>q. py_lower q \<noteq> ''id'') [''accountId'', ''name'', ''xID'', ''zid''] \<and>
   (\<exists>q \<in> set [''accountId'', ''name'', ''xID'', ''zid'']. endswith (py_lower q) ''id'') \<and>
   (\<exists>r pre post.
      determine_identifier Map.empty ''Person'' [''accountId'', ''name'', ''xID'', ''zid''] [] = Inr r \<and>
      r \<in> set [''accountId'', ''name'', ''xID'', ''zid''] \<and> endswith (py_lower r) ''id'' \<and>
      id_candidates [''accountId'', ''name'', ''xID'', ''zid''] = pre @ r # post \<and>
      (\<forall>c \<in> set pre. id_key r < id_key c \<and> length r < length c) \<and>
      (\<forall>c \<in> set post. id_key r \<le> id_key c \<and> length r \<le> length c)) \<and>
   determine_identifier Map.empty ''Person'' [''accountId'', ''name'', ''xID'', ''zid''] [] = Inr ''xID''"
proof -
  have u: "(Map.empty :: string \<rightharpoonup> string list) ''Person'' = None \<or>
           (Map.empty :: string \<rightharpoonup> string list) ''Person'' = Some []"
    by simp
  have a: "\<exists>q \<in> set [''name'', ''userId'', ''id'']. py_lower q = ''id''" by code_simp
  have b: "determine_identifier Map.empty ''Person'' [''name'', ''userId'', ''id''] [] = Inr ''id''"
    by code_simp
  have c: "list_all (\<lambda>q. py_lower q \<noteq> ''id'') [''accountId'', ''name'', ''xID'', ''zid'']"
    by code_simp
  then have c': "\<forall>q \<in> set [''accountId'', ''name'', ''xID'', ''zid'']. py_lower q \<noteq> ''id''"
    by (simp only: list_all_iff)
  have d: "\<exists>q \<in> set [''accountId'', ''name'', ''xID'', ''zid'']. endswith (py_lower q) ''id''"
    by code_simp
  have e: "determine_identifier Map.empty ''Person'' [''accountId'', ''name'', ''xID'', ''zid''] []
             = Inr ''xID''"
    by code_simp
  from a b c c' d e
    id_name_heuristics [where uc = Map.empty and label = "''Person''"
      and properties = "[''name'', ''userId'', ''id'']" and nodes = "[]", OF u]
    id_name_heuristics [where uc = Map.empty and label = "''Person''"
      and properties = "[''accountId'', ''name'', ''xID'', ''zid'']" and nodes = "[]", OF u]
  show ?thesis by blast
qed

section \<open>Resolution by unique values\<close>

lemma node_get_hashable:
  "\<forall>(k, v) \<in> set node. hashable v \<Longrightarrow> hashable (node_get node prop)"
  by (auto simp: node_get_def split: option.splits dest: map_of_SomeD)

lemma sample_values_hashable:
  "\<forall>node \<in> set nodes. \<forall>(k, v) \<in> set node. hashable v \<Longrightarrow>
     list_all hashable (sample_values nodes prop)"
  by (auto simp: sample_values_def list_all_iff intro: node_get_hashable)

lemma first_unique_find:
  assumes "\<forall>node \<in> set nodes. \<forall>(k, v) \<in> set node. hashable v"
  shows "first_unique nodes ps =
           Inr (find (\<lambda>p. sample_values nodes p \<noteq> [] \<and> all_samples_unique nodes p) ps)"
proof (induction ps)
  case Nil
  then show ?case by simp
next
  case (Cons p ps)
  have "unique_valued (sample_values nodes p) =
          Inr (sample_values nodes p \<noteq> [] \<and> all_samples_unique nodes p)"
    using sample_values_hashable [OF assms, of p]
    by (auto simp: unique_valued_def all_samples_unique_def)
  with Cons show ?case by simp
qed

lemma no_id_suffix_no_id:
  "\<not> endswith (py_lower q) ''id'' \<Longrightarrow> py_lower q \<noteq> ''id''"
  by (auto simp: endswith_def)

text \<open>
  C6, as the code has it. Without a declared uniqueness constraint and without a property
  whose lowered name ends in \<open>id\<close>, and for records whose values can be hashed, resolution
  returns the first property, in the property order, that has at least one non-null sample
  and whose non-null samples are all distinct; when there is none it returns the first
  property, and fails only on an empty property list.
\<close>

theorem unique_value_heuristic:
  assumes "uc label = None \<or> uc label = Some []"
    and "\<forall>q \<in> set properties. \<not> endswith (py_lower q) ''id''"
    and "\<forall>node \<in> set nodes. \<forall>(k, v) \<in> set node. hashable v"
  shows "determine_identifier uc label properties nodes =
           (case find (\<lambda>p. sample_values nodes p \<noteq> [] \<and> all_samples_unique nodes p) properties of
              Some p \<Rightarrow> Inr p
            | None \<Rightarrow> (case properties of [] \<Rightarrow> Inl ValueError | p # rest \<Rightarrow> Inr p))"
proof -
  from assms(2) have n: "find (\<lambda>q. py_lower q = ''id'') properties = None"
    by (auto simp: find_None_iff dest: no_id_suffix_no_id)
  from assms(2) have c: "id_candidates properties = []"
    by (simp add: id_candidates_def filter_empty_conv)
  have fu: "first_unique nodes properties =
      Inr (find (\<lambda>p. sample_values nodes p \<noteq> [] \<and> all_samples_unique nodes p) properties)"
    by (rule first_unique_find [OF assms(3)])
  have "determine_identifier uc label properties nodes =
      (case first_unique nodes properties of
         Inl e \<Rightarrow> Inl e
       | Inr (Some prop) \<Rightarrow> Inr prop
       | Inr None \<Rightarrow> (case properties of prop # rest \<Rightarrow> Inr prop | [] \<Rightarrow> Inl ValueError))"
    using assms(1) n c by (auto simp: determine_identifier_def)
  then show ?thesis
    unfolding fu by (simp split: option.splits list.splits)
qed

theorem unique_value_heuristic_witness:
  "list_all (\<lambda>q. \<not> endswith (py_lower q) ''id'') [''email'', ''name''] \<and>
   list_all (\<lambda>node. list_all (\<lambda>(k, v). hashable v) node) shared_email_nodes \<and>
   find (\<lambda>p. sample_values shared_email_nodes p \<noteq> [] \<and> all_samples_unique shared_email_nodes p)
     [''email'', ''name''] = Some ''name'' \<and>
   determine_identifier Map.empty ''Person'' [''email'', ''name''] shared_email_nodes = Inr ''name''"
proof -
  have u: "(Map.empty :: string \<rightharpoonup> string list) ''Person'' = None \<or>
           (Map.empty :: string \<rightharpoonup> string list) ''Person'' = Some []"
    by simp
  have a': "list_all (\<lambda>q. \<not> endswith (py_lower q) ''id'') [''email'', ''name'']" by code_simp
  then have a: "\<forall>q \<in> set [''email'', ''name'']. \<not> endswith (py_lower q) ''id''"
    by (simp only: list_all_iff)
  have b': "list_all (\<lambda>node. list_all (\<lambda>(k, v). hashable v) node) shared_email_nodes"
    by code_simp
  then have b: "\<forall>node \<in> set shared_email_nodes. \<forall>(k, v) \<in> set node. hashable v"
    by (simp only: list_all_iff)
  have f: "find (\<lambda>p. sample_values shared_email_nodes p \<noteq> [] \<and>
                     all_samples_unique shared_email_nodes p) [''email'', ''name''] = Some ''name''"
    by code_simp
  from unique_value_heuristic [where uc = Map.empty and label = "''Person''", OF u a b]
  have "determine_identifier Map.empty ''Person'' [''email'', ''name''] shared_email_nodes = Inr ''name''"
    unfolding f by simp
  with a' b' f show ?thesis by blast
qed

text \<open>
  The claim as stated fails on a property whose samples are all empty: its sampled values
  are trivially all distinct and it comes first, yet the code passes it over and returns
  the next property. It also fails on list values, where building the set raises.
\<close>

theorem empty_sample_not_chosen:
  "id_candidates [''email'', ''nickname''] = [] \<and>
   find (all_samples_unique blank_email_nodes) [''email'', ''nickname''] = Some ''email'' \<and>
   determine_identifier (unique_constraints fresh_exporter) ''Person''
     [''email'', ''nickname''] blank_email_nodes = Inr ''nickname'' \<and>
   find (all_samples_unique movie_nodes) [''genres'', ''title''] = Some ''genres'' \<and>
   determine_identifier (unique_constraints fresh_exporter) ''Movie''
     [''genres'', ''title''] movie_nodes = Inl TypeError"
  by code_simp

section \<open>Failure of resolution\<close>

lemma first_unique_not_ValueError: "first_unique nodes ps \<noteq> Inl ValueError"
  by (induction ps) (auto simp: unique_valued_def split: sum.splits bool.splits)

lemma determine_identifier_ValueError_iff:
  "determine_identifier uc label properties nodes = Inl ValueError \<longleftrightarrow>
     (uc label = None \<or> uc label = Some []) \<and> properties = []"
proof (cases "properties = []")
  case True
  then show ?thesis
    by (auto simp: determine_identifier_def id_candidates_def split: option.splits list.splits)
next
  case False
  then obtain p ps where "properties = p # ps" by (cases properties) auto
  then show ?thesis
    using first_unique_not_ValueError [of nodes properties]
    by (auto simp: determine_identifier_def simp del: first_unique.simps
          split: option.splits list.splits sum.splits)
qed

lemma determine_identifier_returns:
  assumes "properties \<noteq> []" and "\<forall>node \<in> set nodes. \<forall>(k, v) \<in> set node. hashable v"
  shows "\<exists>p. determine_identifier uc label properties nodes = Inr p \<and>
           (uc label = None \<or> uc label = Some [] \<longrightarrow> p \<in> set properties)"
proof (cases "uc label = None \<or> uc label = Some []")
  case False
  then obtain c cs where "uc label = Some (c # cs)"
    by (cases "uc label") (auto simp: neq_Nil_conv)
  with False show ?thesis by (simp add: determine_identifier_def)
next
  case nc: True
  show ?thesis
  proof (cases "find (\<lambda>q. py_lower q = ''id'') properties")
    case (Some p)
    then have "p \<in> set properties" by (auto simp: find_Some_iff)
    with nc Some show ?thesis by (auto simp: determine_identifier_def)
  next
    case None
    show ?thesis
    proof (cases "id_candidates properties = []")
      case False
      let ?r = "hd (sort_key id_key (id_candidates properties))"
      from False have "sort_key id_key (id_candidates properties) \<noteq> []"
        by (simp add: sort_key_Nil_iff)
      then have "?r \<in> set (sort_key id_key (id_candidates properties))" by (rule hd_in_set)
      then have "?r \<in> set properties" by (auto simp: id_candidates_def)
      with nc None False show ?thesis by (auto simp: determine_identifier_def)
    next
      case True
      let ?Q = "\<lambda>p. sample_values nodes p \<noteq> [] \<and> all_samples_unique nodes p"
      have fu: "first_unique nodes properties = Inr (find ?Q properties)"
        by (rule first_unique_find [OF assms(2)])
      have d: "determine_identifier uc label properties nodes =
          (case first_unique nodes properties of
             Inl e \<Rightarrow> Inl e
           | Inr (Some prop) \<Rightarrow> Inr prop
           | Inr None \<Rightarrow> (case properties of prop # rest \<Rightarrow> Inr prop | [] \<Rightarrow> Inl ValueError))"
        using nc None True by (auto simp: determine_identifier_def)
      show ?thesis
      proof (cases "find ?Q properties")
        case (Some p)
        then have "p \<in> set properties" by (auto simp: find_Some_iff)
        with d Some show ?thesis unfolding fu by simp
      next
        case None
        from assms(1) obtain p ps where "properties = p # ps" by (cases properties) auto
        with d None show ?thesis unfolding fu by simp
      qed
    qed
  qed
qed

lemma export_nodes_append:
  "export_nodes st db (xs @ ys) exported =
     (case export_nodes st db xs exported of
        (st1, Inl e) \<Rightarrow> (st1, Inl e)
      | (st1, Inr ex1) \<Rightarrow> export_nodes st1 db ys ex1)"
  by (induction xs arbitrary: st exported) (auto split: sum.splits prod.splits)

lemma export_label_Inl:
  "export_label st label nodes = Inl e \<longleftrightarrow>
     determine_identifier (unique_constraints st) label (sort (observed_properties nodes)) nodes = Inl e"
  by (auto simp: export_label_def Let_def split: sum.splits)

text \<open>
  C7, as the code has it. Resolution raises its \<open>ValueError\<close> exactly when the label has no
  declared uniqueness constraint and no property. With at least one property and values
  that can be hashed it returns a property, one of the listed ones when no constraint is
  declared. The error is not caught: \<open>export_nodes\<close> ends at that label with the state
  reached before it, so no later label is exported and the run has no result.
\<close>

theorem resolution_failure_aborts_export:
  "(determine_identifier uc label properties nodes = Inl ValueError \<longleftrightarrow>
      (uc label = None \<or> uc label = Some []) \<and> properties = []) \<and>
   (properties \<noteq> [] \<and> (\<forall>node \<in> set nodes. \<forall>(k, v) \<in> set node. hashable v) \<longrightarrow>
      (\<exists>p. determine_identifier uc label properties nodes = Inr p \<and>
         (uc label = None \<or> uc label = Some [] \<longrightarrow> p \<in> set properties))) \<and>
   (export_nodes st db before exported = (st1, Inr ex1) \<and> db label \<noteq> [] \<and>
    determine_identifier (unique_constraints st1) label
      (sort (observed_properties (db label))) (db label) = Inl e \<longrightarrow>
      export_nodes st db (before @ label # later) exported = (st1, Inl e))"
proof (intro conjI impI)
  show "determine_identifier uc label properties nodes = Inl ValueError \<longleftrightarrow>
      (uc label = None \<or> uc label = Some []) \<and> properties = []"
    by (rule determine_identifier_ValueError_iff)
next
  assume "properties \<noteq> [] \<and> (\<forall>node \<in> set nodes. \<forall>(k, v) \<in> set node. hashable v)"
  then show "\<exists>p. determine_identifier uc label properties nodes = Inr p \<and>
         (uc label = None \<or> uc label = Some [] \<longrightarrow> p \<in> set properties)"
    using determine_identifier_returns [of properties nodes uc label] by blast
next
  assume a: "export_nodes st db before exported = (st1, Inr ex1) \<and> db label \<noteq> [] \<and>
    determine_identifier (unique_constraints st1) label
      (sort (observed_properties (db label))) (db label) = Inl e"
  then have "export_label st1 label (db label) = Inl e" by (simp add: export_label_Inl)
  with a show "export_nodes st db (before @ label # later) exported = (st1, Inl e)"
    by (simp add: export_nodes_append)
qed


theorem resolution_failure_aborts_export_witness:
  "sort (observed_properties person_nodes) \<noteq> [] \<and>
   list_all (\<lambda>node. list_all (\<lambda>(k, v). hashable v) node) person_nodes \<and>
   (\<exists>p. determine_identifier Map.empty ''Person'' (sort (observed_properties person_nodes))
           person_nodes = Inr p \<and> p \<in> set (sort (observed_properties person_nodes))) \<and>
   export_nodes fresh_exporter bare_db [''Person''] []
     = (fst (export_nodes fresh_exporter bare_db [''Person''] []), Inr [(''Person'', [''id''])]) \<and>
   bare_db ''Bare'' \<noteq> [] \<and>
   export_nodes fresh_exporter bare_db ([''Person''] @ ''Bare'' # [''City'']) []
     = (fst (export_nodes fresh_exporter bare_db [''Person''] []), Inl ValueError) \<and>
   files (fst (export_nodes fresh_exporter bare_db [''Person''] [])) ''Person.csv''
     = Some [[''id''], [''1''], [''2'']] \<and>
   files (fst (export_nodes fresh_exporter bare_db [''Person''] [])) ''City.csv'' = None"
proof -
  let ?st1 = "fst (export_nodes fresh_exporter bare_db [''Person''] [])"
  have a: "sort (observed_properties person_nodes) \<noteq> []" by code_simp
  have b': "list_all (\<lambda>node. list_all (\<lambda>(k, v). hashable v) node) person_nodes"
    by code_simp
  then have b: "\<forall>node \<in> set person_nodes. \<forall>(k, v) \<in> set node. hashable v"
    by (simp only: list_all_iff)
  have "snd (export_nodes fresh_exporter bare_db [''Person''] []) = Inr [(''Person'', [''id''])]"
    by code_simp
  then have c: "export_nodes fresh_exporter bare_db [''Person''] []
      = (?st1, Inr [(''Person'', [''id''])])"
    by (metis prod.collapse)
  have d: "bare_db ''Bare'' \<noteq> []" by code_simp
  have e: "determine_identifier (unique_constraints ?st1) ''Bare''
      (sort (observed_properties (bare_db ''Bare''))) (bare_db ''Bare'') = Inl ValueError"
    by code_simp
  have f: "files ?st1 ''Person.csv'' = Some [[''id''], [''1''], [''2'']]" by code_simp
  have g: "files ?st1 ''City.csv'' = None" by code_simp
  note t = resolution_failure_aborts_export
    [where uc = Map.empty and label = "''Person''"
       and properties = "sort (observed_properties person_nodes)" and nodes = person_nodes]
  from t a b have h: "\<exists>p. determine_identifier Map.empty ''Person''
       (sort (observed_properties person_nodes)) person_nodes = Inr p \<and>
       p \<in> set (sort (observed_properties person_nodes))"
    by simp
  note u = resolution_failure_aborts_export
    [where st = fresh_exporter and db = bare_db and before = "[''Person'']" and exported = "[]"
       and ?st1.0 = ?st1 and ?ex1.0 = "[(''Person'', [''id''])]" and label = "''Bare''"
       and e = ValueError and later = "[''City'']"]
  from u c d e have i: "export_nodes fresh_exporter bare_db ([''Person''] @ ''Bare'' # [''City'']) []
     = (?st1, Inl ValueError)"
    by blast
  from a b' h c d i f g show ?thesis by blast
qed

text \<open>
  The claim as stated fails in three ways: a label without properties still resolves when a
  constraint is declared for it; a label with properties can fail, with a \<open>TypeError\<close>, on
  list values; and the failure of one label ends the whole node export, so that a later
  label with records gets no file.
\<close>

theorem resolution_failure_not_local:
  "determine_identifier (unique_constraints tag_exporter) ''Tag'' [] [[]] = Inr ''name'' \<and>
   determine_identifier (unique_constraints fresh_exporter) ''Movie''
     (sort (observed_properties movie_nodes)) movie_nodes = Inl TypeError \<and>
   bare_db ''City'' \<noteq> [] \<and>
   snd (export_nodes fresh_exporter bare_db [''Bare'', ''City''] []) = Inl ValueError \<and>
   files (fst (export_nodes fresh_exporter bare_db [''Bare'', ''City''] [])) ''City.csv'' = None \<and>
   label_identifiers (fst (export_nodes fresh_exporter bare_db [''Bare'', ''City''] [])) ''City''
     = None"
  by code_simp

section \<open>Labels without records\<close>

lemma export_label_other:
  assumes "export_label st label nodes = Inr (st', cols)" and "label \<noteq> l"
  shows "label_identifiers st' l = label_identifiers st l \<and>
         files st' (l @ ''.csv'') = files st (l @ ''.csv'')"
  using export_label_Inr [OF assms(1)] assms(2) by auto

lemma dict_set_keys: "fst ` set (dict_set d k v) = insert k (fst ` set d)"
proof (induction d)
  case Nil
  show ?case by simp
next
  case (Cons a d)
  obtain k' v' where a: "a = (k', v')" by (cases a)
  show ?case
  proof (cases "k' = k")
    case True
    with a show ?thesis by simp
  next
    case False
    with a Cons show ?thesis by (simp add: insert_commute)
  qed
qed

lemma export_nodes_skips_empty:
  assumes "db l = []"
  shows "label_identifiers (fst (export_nodes st db labels exported)) l = label_identifiers st l \<and>
         files (fst (export_nodes st db labels exported)) (l @ ''.csv'') = files st (l @ ''.csv'') \<and>
         (\<forall>nf. snd (export_nodes st db labels exported) = Inr nf \<longrightarrow>
            l \<in> fst ` set nf \<longrightarrow> l \<in> fst ` set exported)"
proof (induction labels arbitrary: st exported)
  case Nil
  then show ?case by simp
next
  case (Cons label rest)
  show ?case
  proof (cases "db label = []")
    case True
    with Cons show ?thesis by simp
  next
    case False
    with assms have ne: "label \<noteq> l" by auto
    show ?thesis
    proof (cases "export_label st label (db label)")
      case (Inl e)
      with False show ?thesis by simp
    next
      case (Inr r)
      obtain st' cols where r: "r = (st', cols)" by (cases r)
      from export_label_other [OF Inr [unfolded r] ne]
      have o: "label_identifiers st' l = label_identifiers st l"
        "files st' (l @ ''.csv'') = files st (l @ ''.csv'')"
        by auto
      have e: "export_nodes st db (label # rest) exported
          = export_nodes st' db rest (dict_set exported label cols)"
        using False Inr r by simp
      from Cons [of st' "dict_set exported label cols"] o ne
      show ?thesis unfolding e by (auto simp: dict_set_keys)
    qed
  qed
qed

lemma export_pattern_skips:
  "label_identifiers st src = None \<or> label_identifiers st tgt = None \<Longrightarrow>
     export_pattern st (src, rt, tgt) records = (st, None)"
  by (auto simp: export_pattern_def split: option.splits)

lemma export_pattern_identifiers:
  "label_identifiers (fst (export_pattern st pat records)) = label_identifiers st"
  by (cases pat) (auto simp: export_pattern_def Let_def split: option.splits)

lemma export_pattern_info:
  "export_pattern st pat records = (st', Some info) \<Longrightarrow>
     label_identifiers st (source_label info) \<noteq> None \<and>
     label_identifiers st (target_label info) \<noteq> None"
  by (cases pat) (auto simp: export_pattern_def Let_def split: option.splits if_splits)

lemma dict_set_subset: "set (dict_set d k v) \<subseteq> insert (k, v) (set d)"
  by (induction d) (auto split: if_splits)

lemma export_relationships_resolved:
  assumes "label_identifiers st l = None"
    and "\<forall>(key, info) \<in> set exported. source_label info \<noteq> l \<and> target_label info \<noteq> l"
  shows "\<forall>(key, info) \<in> set (snd (export_relationships st rdb pats exported)).
           source_label info \<noteq> l \<and> target_label info \<noteq> l"
  using assms
proof (induction pats arbitrary: st exported)
  case Nil
  then show ?case by simp
next
  case (Cons pat rest)
  obtain st' oi where ep: "export_pattern st pat (rdb pat) = (st', oi)"
    by (cases "export_pattern st pat (rdb pat)")
  have li: "label_identifiers st' l = None"
    using export_pattern_identifiers [of st pat "rdb pat"] ep Cons.prems(1) by simp
  show ?case
  proof (cases oi)
    case None
    with ep Cons.IH [OF li Cons.prems(2)] show ?thesis by simp
  next
    case (Some info)
    from export_pattern_info [OF ep [unfolded Some]] Cons.prems(1)
    have "source_label info \<noteq> l \<and> target_label info \<noteq> l" by auto
    with Cons.prems(2) dict_set_subset [of exported "pattern_key pat" info]
    have "\<forall>(key, i) \<in> set (dict_set exported (pattern_key pat) info).
            source_label i \<noteq> l \<and> target_label i \<noteq> l"
      by auto
    from Cons.IH [OF li this] ep Some show ?thesis by simp
  qed
qed

lemma add_node_list_tokens:
  "map fst (nodeLabels (fst (foldl (add_node_list fs) (doc, sd) nfs)))
     = map fst (nodeLabels doc) @ map fst nfs"
  by (induction nfs arbitrary: doc sd) (auto simp: add_node_list_def Let_def)

lemma add_node_tokens:
  "map fst (nodeLabels (fst (foldl (add_node fs) (doc, sd) nfs)))
     = map fst (nodeLabels doc) @ map fst nfs"
  by (induction nfs arbitrary: doc sd) (auto simp: add_node_def Let_def)

lemma add_rel_v3_0_nodeLabels:
  "nodeLabels (fst (foldl (add_rel_v3_0 fs ls) (doc, sd, seen) rfs)) = nodeLabels doc"
  by (induction rfs arbitrary: doc sd seen) (auto simp: add_rel_v3_0_def Let_def)

lemma add_rel_v2_4_nodeLabels:
  "nodeLabels (foldl (add_rel_v2_4 fs ls) doc rfs) = nodeLabels doc"
  by (induction rfs arbitrary: doc) (auto simp: add_rel_v2_4_def Let_def)

lemma add_rel_v0_1_nodeLabels:
  "nodeLabels (foldl (add_rel_v0_1 fs ls) doc rfs) = nodeLabels doc"
  by (induction rfs arbitrary: doc) (auto simp: add_rel_v0_1_def Let_def)

lemma generated_node_tokens:
  "map fst (nodeLabels (generate_importer_model v fs node_files rel_files)) = map fst node_files"
proof -
  have a: "map fst (nodeLabels (generate_model_v3_0 fs node_files rel_files)) = map fst node_files"
    using add_node_list_tokens [of fs empty_doc "[]" node_files]
    by (cases "foldl (add_node_list fs) (empty_doc, []) node_files")
       (simp add: generate_model_v3_0_def add_rel_v3_0_nodeLabels empty_doc_def)
  have b: "map fst (nodeLabels (generate_model_v2_4 fs node_files rel_files)) = map fst node_files"
    using add_node_list_tokens [of fs empty_doc "[]" node_files]
    by (simp add: generate_model_v2_4_def add_rel_v2_4_nodeLabels empty_doc_def)
  have c: "map fst (nodeLabels (generate_model_v0_1 fs node_files rel_files)) = map fst node_files"
    using add_node_tokens [of fs empty_doc "[]" node_files]
    by (simp add: generate_model_v0_1_def add_rel_v0_1_nodeLabels empty_doc_def)
  from a b c show ?thesis by (simp add: generate_importer_model_def)
qed


text \<open>
  C10. A label whose query returns no record gets no file and no identifier from the node
  export and is no key of the exported table, so no generated document, of any format
  version, has a node label entry for it; every pattern with that label as source or as
  target is left without a file or an entry.
\<close>

theorem label_without_records_left_out:
  assumes "label_identifiers st label = None" and "db label = []"
  shows "files (fst (export_nodes st db labels [])) (label @ ''.csv'') = files st (label @ ''.csv'') \<and>
         label_identifiers (fst (export_nodes st db labels [])) label = None \<and>
         (\<forall>node_files. snd (export_nodes st db labels []) = Inr node_files \<longrightarrow>
            label \<notin> fst ` set node_files \<and>
            (\<forall>v fs rel_files.
               label \<notin> fst ` set (nodeLabels (generate_importer_model v fs node_files rel_files)))) \<and>
         (\<forall>rt other records.
            export_pattern (fst (export_nodes st db labels [])) (label, rt, other) records
              = (fst (export_nodes st db labels []), None) \<and>
            export_pattern (fst (export_nodes st db labels [])) (other, rt, label) records
              = (fst (export_nodes st db labels []), None)) \<and>
         (\<forall>rdb pats.
            \<forall>(key, info) \<in> set (snd (export_relationships (fst (export_nodes st db labels [])) rdb pats [])).
              source_label info \<noteq> label \<and> target_label info \<noteq> label)"
proof -
  let ?R = "export_nodes st db labels []"
  from export_nodes_skips_empty
         [where db = db and l = label and st = st and labels = labels and exported = "[]"]
       assms
  have f: "files (fst ?R) (label @ ''.csv'') = files st (label @ ''.csv'')"
    and i: "label_identifiers (fst ?R) label = None"
    and k: "\<forall>nf. snd ?R = Inr nf \<longrightarrow> label \<notin> fst ` set nf"
    by auto
  have g: "\<forall>node_files. snd ?R = Inr node_files \<longrightarrow>
            label \<notin> fst ` set node_files \<and>
            (\<forall>v fs rel_files.
               label \<notin> fst ` set (nodeLabels (generate_importer_model v fs node_files rel_files)))"
  proof (intro allI impI)
    fix node_files assume "snd ?R = Inr node_files"
    with k have n: "label \<notin> fst ` set node_files" by blast
    have "\<And>v fs rel_files.
        fst ` set (nodeLabels (generate_importer_model v fs node_files rel_files)) = fst ` set node_files"
      using generated_node_tokens [of _ _ node_files] by (metis set_map)
    with n show "label \<notin> fst ` set node_files \<and>
            (\<forall>v fs rel_files.
               label \<notin> fst ` set (nodeLabels (generate_importer_model v fs node_files rel_files)))"
      by simp
  qed
  have p: "\<forall>rt other records.
            export_pattern (fst ?R) (label, rt, other) records = (fst ?R, None) \<and>
            export_pattern (fst ?R) (other, rt, label) records = (fst ?R, None)"
    using i by (simp add: export_pattern_skips)
  have r: "\<forall>rdb pats.
            \<forall>(key, info) \<in> set (snd (export_relationships (fst ?R) rdb pats [])).
              source_label info \<noteq> label \<and> target_label info \<noteq> label"
    using export_relationships_resolved [OF i, of "[]"] by simp
  from f i g p r show ?thesis by blast
qed

theorem label_without_records_left_out_witness:
  "label_identifiers fresh_exporter ''Ghost'' = None \<and> bare_db ''Ghost'' = [] \<and>
   snd (export_nodes fresh_exporter bare_db [''Person'', ''Ghost'', ''City''] [])
     = Inr [(''Person'', [''id'']), (''City'', [''name''])] \<and>
   files (fst (export_nodes fresh_exporter bare_db [''Person'', ''Ghost'', ''City''] []))
       (''Ghost'' @ ''.csv'') = None \<and>
   label_identifiers (fst (export_nodes fresh_exporter bare_db [''Person'', ''Ghost'', ''City''] []))
       ''Ghost'' = None \<and>
   ''Ghost'' \<notin> fst ` set [(''Person'', [''id'']), (''City'', [''name''])] \<and>
   ''Ghost'' \<notin> fst ` set (nodeLabels (generate_importer_model ''2.4.0''
        (files (fst (export_nodes fresh_exporter bare_db [''Person'', ''Ghost'', ''City''] [])))
        [(''Person'', [''id'']), (''City'', [''name''])] [])) \<and>
   export_pattern (fst (export_nodes fresh_exporter bare_db [''Person'', ''Ghost'', ''City''] []))
       (''Ghost'', ''KNOWS'', ''Person'') knows_records
     = (fst (export_nodes fresh_exporter bare_db [''Person'', ''Ghost'', ''City''] []), None) \<and>
   export_pattern (fst (export_nodes fresh_exporter bare_db [''Person'', ''Ghost'', ''City''] []))
       (''Person'', ''KNOWS'', ''Ghost'') knows_records
     = (fst (export_nodes fresh_exporter bare_db [''Person'', ''Ghost'', ''City''] []), None) \<and>
   list_all (\<lambda>(key, info). source_label info \<noteq> ''Ghost'' \<and> target_label info \<noteq> ''Ghost'')
     (snd (export_relationships
             (fst (export_nodes fresh_exporter bare_db [''Person'', ''Ghost'', ''City''] []))
             (\<lambda>pat. knows_records)
             [(''Ghost'', ''KNOWS'', ''Person''), (''Person'', ''KNOWS'', ''Person'')] []))"
proof -
  let ?R = "export_nodes fresh_exporter bare_db [''Person'', ''Ghost'', ''City''] []"
  have a: "label_identifiers fresh_exporter ''Ghost'' = None" by (simp add: fresh_exporter_def)
  have b: "bare_db ''Ghost'' = []" by code_simp
  have c: "snd ?R = Inr [(''Person'', [''id'']), (''City'', [''name''])]"
    by code_simp
  have d: "files fresh_exporter (''Ghost'' @ ''.csv'') = None" by (simp add: fresh_exporter_def)
  note t = label_without_records_left_out
      [where st = fresh_exporter and db = bare_db and label = "''Ghost''"
         and labels = "[''Person'', ''Ghost'', ''City'']"]
  from t a b d have f: "files (fst ?R) (''Ghost'' @ ''.csv'') = None" by simp
  from t a b have i: "label_identifiers (fst ?R) ''Ghost'' = None" by blast
  from t a b c have n: "''Ghost'' \<notin> fst ` set [(''Person'', [''id'']), (''City'', [''name''])]"
    by blast
  from t a b c have g: "''Ghost'' \<notin> fst ` set (nodeLabels (generate_importer_model ''2.4.0''
        (files (fst ?R)) [(''Person'', [''id'']), (''City'', [''name''])] []))"
    by blast
  from t a b have p: "export_pattern (fst ?R) (''Ghost'', ''KNOWS'', ''Person'') knows_records
        = (fst ?R, None) \<and>
      export_pattern (fst ?R) (''Person'', ''KNOWS'', ''Ghost'') knows_records = (fst ?R, None)"
    by blast
  from t a b have "\<forall>(key, info) \<in> set (snd (export_relationships (fst ?R) (\<lambda>pat. knows_records)
             [(''Ghost'', ''KNOWS'', ''Person''), (''Person'', ''KNOWS'', ''Person'')] [])).
        source_label info \<noteq> ''Ghost'' \<and> target_label info \<noteq> ''Ghost''"
    by blast
  then have r: "list_all (\<lambda>(key, info). source_label info \<noteq> ''Ghost'' \<and> target_label info \<noteq> ''Ghost'')
     (snd (export_relationships (fst ?R) (\<lambda>pat. knows_records)
             [(''Ghost'', ''KNOWS'', ''Person''), (''Person'', ''KNOWS'', ''Person'')] []))"
    by (simp only: list_all_iff)
  from a b c f i n g p r show ?thesis by blast
qed

section \<open>Samples behind the inferred types\<close>

text \<open>
  C4 on a run with one relationship type between two label pairs. The pattern files are
  written with \<open>score\<close> 5 and \<open>score\<close> high in their first rows. Formats 2.4.0 and 0.1.0
  read the sample of a pattern from the file named after the relationship type alone, which
  the export never writes, so every relationship column comes out as \<open>string\<close> with an
  empty sample. Format 3.0 reads the pattern's file only for the first pattern of a type
  and describes the second pattern's file with the first one's sample. A missing sample
  gives \<open>string\<close> and the empty sample without an error.
\<close>

theorem relationship_sample_not_from_pattern_file:
  "files (fst (export_all ''2.4.0'' fresh_exporter rated_metadata bare_db rated_patterns rated_rdb))
     ''Person_RATED_Person.csv''
     = Some [[''Person_id_source'', ''Person_id_target'', ''score''], [''1'', ''2'', ''5'']] \<and>
   files (fst (export_all ''2.4.0'' fresh_exporter rated_metadata bare_db rated_patterns rated_rdb))
     ''Person_RATED_City.csv''
     = Some [[''Person_id'', ''City_name'', ''score''], [''1'', ''Oslo'', ''high'']] \<and>
   files (fst (export_all ''2.4.0'' fresh_exporter rated_metadata bare_db rated_patterns rated_rdb))
     ''RATED.csv'' = None \<and>
   infer_type ''5'' = ''integer'' \<and> infer_type ''high'' = ''string'' \<and>
   snd (export_all ''2.4.0'' fresh_exporter rated_metadata bare_db rated_patterns rated_rdb)
     = Inr \<lparr>nodeLabels = [(''Person'', [(''id'', ''integer'')]), (''City'', [(''name'', ''string'')])],
            relationshipTypes = [(''RATED'', [(''score'', ''string'')]),
                                 (''RATED'', [(''score'', ''string'')])],
            tableSchemas =
              [(''Person.csv'', [(''id'', ''1'', ''integer'')]),
               (''City.csv'', [(''name'', ''Oslo'', ''string'')]),
               (''Person_RATED_Person.csv'',
                [(''Person_id_source'', [], ''string''), (''Person_id_target'', [], ''string''),
                 (''score'', [], ''string'')]),
               (''Person_RATED_City.csv'',
                [(''Person_id'', [], ''string''), (''City_name'', [], ''string''),
                 (''score'', [], ''string'')])]\<rparr> \<and>
   snd (export_all ''0.1.0'' fresh_exporter rated_metadata bare_db rated_patterns rated_rdb)
     = Inr \<lparr>nodeLabels = [(''Person'', [(''id'', ''integer'')]), (''City'', [(''name'', ''string'')])],
            relationshipTypes = [(''RATED'', [(''score'', ''string'')]),
                                 (''RATED'', [(''score'', ''string'')])],
            tableSchemas =
              [(''Person.csv'', [(''id'', ''1'', ''integer'')]),
               (''City.csv'', [(''name'', ''Oslo'', ''string'')])]\<rparr> \<and>
   snd (export_all ''3.0'' fresh_exporter rated_metadata bare_db rated_patterns rated_rdb)
     = Inr \<lparr>nodeLabels = [(''Person'', [(''id'', ''integer'')]), (''City'', [(''name'', ''string'')])],
            relationshipTypes = [(''RATED'', [(''score'', ''integer'')])],
            tableSchemas =
              [(''Person.csv'', [(''id'', ''1'', ''integer'')]),
               (''City.csv'', [(''name'', ''Oslo'', ''string'')]),
               (''Person_RATED_Person.csv'',
                [(''Person_id_source'', ''1'', ''integer''), (''Person_id_target'', ''2'', ''integer''),
                 (''score'', ''5'', ''integer'')]),
               (''Person_RATED_City.csv'',
                [(''Person_id'', [], ''string''), (''City_name'', [], ''string''),
                 (''score'', ''5'', ''integer'')])]\<rparr> \<and>
   read_sample (files fresh_exporter) ''RATED.csv'' = [] \<and>
   inferred [] prop = ''string'' \<and> sample_text [] prop = []"
proof -
  have 1: "files (fst (export_all ''2.4.0'' fresh_exporter rated_metadata bare_db rated_patterns rated_rdb))
     ''Person_RATED_Person.csv''
     = Some [[''Person_id_source'', ''Person_id_target'', ''score''], [''1'', ''2'', ''5'']]"
    by code_simp
  have 2: "files (fst (export_all ''2.4.0'' fresh_exporter rated_metadata bare_db rated_patterns rated_rdb))
     ''Person_RATED_City.csv''
     = Some [[''Person_id'', ''City_name'', ''score''], [''1'', ''Oslo'', ''high'']]"
    by code_simp
  have 3: "files (fst (export_all ''2.4.0'' fresh_exporter rated_metadata bare_db rated_patterns rated_rdb))
     ''RATED.csv'' = None"
    by code_simp
  have 4: "infer_type ''5'' = ''integer'' \<and> infer_type ''high'' = ''string''" by code_simp
  have 5: "snd (export_all ''2.4.0'' fresh_exporter rated_metadata bare_db rated_patterns rated_rdb)
     = Inr \<lparr>nodeLabels = [(''Person'', [(''id'', ''integer'')]), (''City'', [(''name'', ''string'')])],
            relationshipTypes = [(''RATED'', [(''score'', ''string'')]),
                                 (''RATED'', [(''score'', ''string'')])],
            tableSchemas =
              [(''Person.csv'', [(''id'', ''1'', ''integer'')]),
               (''City.csv'', [(''name'', ''Oslo'', ''string'')]),
               (''Person_RATED_Person.csv'',
                [(''Person_id_source'', [], ''string''), (''Person_id_target'', [], ''string''),
                 (''score'', [], ''string'')]),
               (''Person_RATED_City.csv'',
                [(''Person_id'', [], ''string''), (''City_name'', [], ''string''),
                 (''score'', [], ''string'')])]\<rparr>"
    by code_simp
  have 6: "snd (export_all ''0.1.0'' fresh_exporter rated_metadata bare_db rated_patterns rated_rdb)
     = Inr \<lparr>nodeLabels = [(''Person'', [(''id'', ''integer'')]), (''City'', [(''name'', ''string'')])],
            relationshipTypes = [(''RATED'', [(''score'', ''string'')]),
                                 (''RATED'', [(''score'', ''string'')])],
            tableSchemas =
              [(''Person.csv'', [(''id'', ''1'', ''integer'')]),
               (''City.csv'', [(''name'', ''Oslo'', ''string'')])]\<rparr>"
    by code_simp
  have 7: "snd (export_all ''3.0'' fresh_exporter rated_metadata bare_db rated_patterns rated_rdb)
     = Inr \<lparr>nodeLabels = [(''Person'', [(''id'', ''integer'')]), (''City'', [(''name'', ''string'')])],
            relationshipTypes = [(''RATED'', [(''score'', ''integer'')])],
            tableSchemas =
              [(''Person.csv'', [(''id'', ''1'', ''integer'')]),
               (''City.csv'', [(''name'', ''Oslo'', ''string'')]),
               (''Person_RATED_Person.csv'',
                [(''Person_id_source'', ''1'', ''integer''), (''Person_id_target'', ''2'', ''integer''),
                 (''score'', ''5'', ''integer'')]),
               (''Person_RATED_City.csv'',
                [(''Person_id'', [], ''string''), (''City_name'', [], ''string''),
                 (''score'', ''5'', ''integer'')])]\<rparr>"
    by code_simp
  have 8: "read_sample (files fresh_exporter) ''RATED.csv'' = []"
    by (simp add: read_sample_def fresh_exporter_def)
  have 9: "inferred [] prop = ''string'' \<and> sample_text [] prop = []"
    by (simp add: inferred_def sample_text_def sample_get_def infer_type_def)
  from 1 2 3 4 5 6 7 8 9 show ?thesis by blast
qed

end
